theory Spec2Isabelle
  imports Complex_Main "HOL-Library.Word"
begin

unbundle bit_operations_syntax

section \<open>JavaScript numbers and values\<close>

text \<open>
  JavaScript numbers are modelled as exact reals: every concrete input used below is a
  small dyadic or decimal value on which the IEEE operations of the source are exact, and
  NaN and the infinities are not modelled. The operators of the source that differ from
  HOL's are written out.
\<close>

text \<open>\<open>Math.trunc\<close>-style rounding towards zero, as the \<open>%\<close> operator uses it.\<close>

definition js_trunc :: "real \<Rightarrow> int" where
  "js_trunc x = (if x < 0 then - \<lfloor>- x\<rfloor> else \<lfloor>x\<rfloor>)"

text \<open>The \<open>%\<close> operator: the remainder takes the sign of the dividend.\<close>

definition js_rem :: "real \<Rightarrow> real \<Rightarrow> real" where
  "js_rem x y = x - y * of_int (js_trunc (x / y))"

text \<open>\<open>x || d\<close> on a number: \<open>0\<close> is falsy.\<close>

definition js_or :: "real \<Rightarrow> real \<Rightarrow> real" where
  "js_or x d = (if x = 0 then d else x)"

text \<open>\<open>x || d\<close> on a field that may still be \<open>undefined\<close>.\<close>

definition js_or_undef :: "real option \<Rightarrow> real \<Rightarrow> real" where
  "js_or_undef x d = (case x of None \<Rightarrow> d | Some v \<Rightarrow> js_or v d)"

text \<open>
  A value passed where the source expects an LFO index: a number, a string, \<open>null\<close> or
  \<open>undefined\<close> (an omitted argument).
\<close>

datatype js_value = JNum real | JStr string | JNull | JUndefined

section \<open>TrackAudio: loop transport (src/audio/TrackAudio.js)\<close>

text \<open>
  \<open>player.playbackRate\<close> is read either as an object with a \<open>value\<close> field or as a
  primitive number, for which \<open>|| 1\<close> replaces \<open>0\<close>.
\<close>

datatype playback_rate = RateSignal real | RateNumber real

record transport =
  recorderIsRecording :: bool
  recordStartTime :: real
  playerStarted :: bool
  bufferDuration :: real
  playbackRate :: playback_rate
  playStartTime :: real
  playStartOffset :: "real option"
  loopStart :: real
  loopEnd :: real
  playerLoop :: bool
  playerReverse :: bool
  pausePosition :: "real option"

definition rateOf :: "playback_rate \<Rightarrow> real" where
  "rateOf r = (case r of RateSignal v \<Rightarrow> v | RateNumber v \<Rightarrow> js_or v 1)"

text \<open>\<open>getCurrentPosition()\<close>, with \<open>Tone.now()\<close> passed as \<open>now\<close>.\<close>

definition getCurrentPosition :: "transport \<Rightarrow> real \<Rightarrow> real" where
  "getCurrentPosition t now =
     (if recorderIsRecording t then now - recordStartTime t
      else if playerStarted t then
        (let duration = bufferDuration t in
         if duration = 0 then 0
         else
           (let rate = rateOf (playbackRate t);
                elapsed = (now - playStartTime t) * rate;
                lStart = js_or (loopStart t) 0;
                lEnd = js_or (loopEnd t) duration;
                loopLen = lEnd - lStart
            in if playerLoop t \<and> loopLen > 0 then
                 (let startOffset = js_or_undef (playStartOffset t) lStart;
                      relStart = startOffset - lStart;
                      relPos =
                        (if playerReverse t then
                           (let r = js_rem (relStart - elapsed) loopLen
                            in if r < 0 then r + loopLen else r)
                         else js_rem (relStart + elapsed) loopLen)
                  in lStart + relPos)
               else if playerReverse t then
                 max 0 (js_or_undef (playStartOffset t) duration - elapsed)
               else min duration (js_or_undef (playStartOffset t) 0 + elapsed)))
      else js_or_undef (pausePosition t) 0)"

text \<open>
  \<open>startPlayback(offset)\<close> on a loaded player: the fields that \<open>getCurrentPosition\<close>
  reads afterwards. An offset at or beyond the buffer's duration restarts from \<open>0\<close>.
\<close>

definition startPlayback :: "transport \<Rightarrow> real option \<Rightarrow> real \<Rightarrow> transport" where
  "startPlayback t offset now =
     (let startPos = (case offset of None \<Rightarrow> loopStart t | Some v \<Rightarrow> v);
          startPos' = (if startPos \<ge> bufferDuration t then 0 else startPos)
      in t\<lparr>playStartOffset := Some startPos', playStartTime := now, playerStarted := True\<rparr>)"

text \<open>
  A track holding a ten second buffer with the loop region set to \<open>[2, 4)\<close>, stopped,
  forward, at rate \<open>1\<close>.
\<close>

definition loopTrack :: transport where
  "loopTrack =
     \<lparr>recorderIsRecording = False, recordStartTime = 0, playerStarted = False,
      bufferDuration = 10, playbackRate = RateNumber 1, playStartTime = 0,
      playStartOffset = None, loopStart = 2, loopEnd = 4, playerLoop = True,
      playerReverse = False, pausePosition = None\<rparr>"

section \<open>PCMRecorder and WAV encoding (src/cast/CastManager.js)\<close>

text \<open>
  An \<open>AudioBuffer\<close> with two channels, as \<open>createBuffer(2, n, rate)\<close> and
  \<open>copyToChannel\<close> build it; both channels have the buffer's length.
\<close>

record audio_buffer =
  chanL :: "real list"
  chanR :: "real list"
  abSampleRate :: real

definition createBuffer :: "nat \<Rightarrow> real \<Rightarrow> audio_buffer" where
  "createBuffer n rate = \<lparr>chanL = replicate n 0, chanR = replicate n 0, abSampleRate = rate\<rparr>"

text \<open>
  \<open>interleave(left, right)\<close>: the loop writes \<open>left[k]\<close>, \<open>right[k]\<close> for every frame;
  it is only called on two channels of one buffer.
\<close>

definition interleave :: "real list \<Rightarrow> real list \<Rightarrow> real list" where
  "interleave l r = concat (map (\<lambda>(a, b). [a, b]) (zip l r))"

text \<open>
  One sample of \<open>floatTo16BitPCM\<close>: clamp, scale by \<open>0x8000\<close> or \<open>0x7FFF\<close>, and the
  truncation towards zero that \<open>setInt16\<close> applies.
\<close>

definition floatTo16BitPCM :: "real \<Rightarrow> int" where
  "floatTo16BitPCM x =
     (let s = max (- 1) (min 1 x) in js_trunc (if s < 0 then s * 32768 else s * 32767))"

text \<open>
  The Blob that \<open>encodeWAV\<close> returns, by the header fields it writes (channel count,
  sample rate, size of the data chunk in bytes) and its 16-bit samples.
\<close>

record wav_blob =
  wavChannels :: nat
  wavSampleRate :: real
  wavDataSize :: nat
  wavSamples :: "int list"

definition encodeWAV :: "audio_buffer \<Rightarrow> wav_blob" where
  "encodeWAV b =
     (let interleaved = interleave (chanL b) (chanR b)
      in \<lparr>wavChannels = 2, wavSampleRate = abSampleRate b,
          wavDataSize = length interleaved * 2,
          wavSamples = map floatTo16BitPCM interleaved\<rparr>)"

text \<open>Frames per channel of an encoded buffer: four bytes per stereo frame.\<close>

definition wavFrames :: "wav_blob \<Rightarrow> nat" where
  "wavFrames w = wavDataSize w div (2 * wavChannels w)"

text \<open>
  The recorder's fields. \<open>targetSampleCount\<close> is \<open>undefined\<close> until
  \<open>TrackAudio.startRecording\<close> sets it; \<open>workletNode\<close> and \<open>onComplete\<close> are kept as
  flags (set or not).
\<close>

record recorder =
  leftBuffers :: "real list list"
  rightBuffers :: "real list list"
  recordingLength :: nat
  isRecording :: bool
  targetSampleCount :: "int option"
  ctxSampleRate :: real
  workletNode :: bool
  onComplete :: bool

datatype rec_error = RangeError

text \<open>The constructor, on a context with the given sample rate.\<close>

definition newRecorder :: "real \<Rightarrow> recorder" where
  "newRecorder rate =
     \<lparr>leftBuffers = [], rightBuffers = [], recordingLength = 0, isRecording = False,
      targetSampleCount = None, ctxSampleRate = rate, workletNode = False,
      onComplete = False\<rparr>"

text \<open>\<open>PCMRecorder.start()\<close>: the buffers are reset and the worklet node is created.\<close>

definition recorderStart :: "recorder \<Rightarrow> recorder" where
  "recorderStart r =
     r\<lparr>leftBuffers := [], rightBuffers := [], recordingLength := 0, workletNode := True,
       isRecording := True\<rparr>"

text \<open>
  Sample counts are integers that the program gets with \<open>Math.floor\<close> from a product
  of two Numbers. That product is the engine's: the IEEE 754 double product, rounded to
  nearest, which is not always the product of the reals (\<open>0.3 * 48000\<close> is \<open>14400\<close> for
  the engine). The model takes the engine's product as a parameter \<open>mul\<close> wherever a
  count is computed, and assumes nothing of it; where both factors and their product are
  integers below \<open>2 ^ 53\<close>, or one factor is a power of two, it is the product of the
  reals.
\<close>

type_synonym js_mul = "real \<Rightarrow> real \<Rightarrow> real"

text \<open>
  \<open>TrackAudio.startRecording(duration)\<close>, as far as the recorder is concerned: a new
  recorder, the target \<open>Math.floor(duration * sr)\<close> when \<open>duration\<close> is truthy
  (with \<open>sr = Tone.context.sampleRate || 48000\<close>), then \<open>start()\<close>.
\<close>

definition startRecording :: "js_mul \<Rightarrow> real option \<Rightarrow> real \<Rightarrow> recorder" where
  "startRecording mul duration rate =
     (let r = newRecorder rate;
          r' = (case duration of
                  None \<Rightarrow> r
                | Some d \<Rightarrow>
                    if d = 0 then r
                    else
                      (let sr = js_or rate 48000
                       in r\<lparr>targetSampleCount := Some \<lfloor>mul d sr\<rfloor>\<rparr>))
      in recorderStart r')"

text \<open>The messages the recorder's worklet posts.\<close>

datatype worklet_msg = Alive | Peak real | Data "real list" "real list"

text \<open>
  The \<open>port.onmessage\<close> handler: a data chunk is appended while recording, and reaching
  the target clears \<open>isRecording\<close> (and calls \<open>onComplete\<close>).
\<close>

definition onmessage :: "worklet_msg \<Rightarrow> recorder \<Rightarrow> recorder" where
  "onmessage m r =
     (case m of
        Alive \<Rightarrow> r
      | Peak v \<Rightarrow> r
      | Data l rr \<Rightarrow>
          if \<not> isRecording r then r
          else
            (let r1 = r\<lparr>leftBuffers := leftBuffers r @ [l],
                        rightBuffers := rightBuffers r @ [rr],
                        recordingLength := recordingLength r + length l\<rparr>
             in case targetSampleCount r1 of
                  None \<Rightarrow> r1
                | Some t \<Rightarrow>
                    if t \<noteq> 0 \<and> int (recordingLength r1) \<ge> t
                    then r1\<lparr>isRecording := False\<rparr> else r1))"

text \<open>A recording session: \<open>startRecording\<close>, then the worklet's messages in order.\<close>

definition session :: "js_mul \<Rightarrow> real option \<Rightarrow> real \<Rightarrow> worklet_msg list \<Rightarrow> recorder" where
  "session mul duration rate msgs = fold onmessage msgs (startRecording mul duration rate)"

text \<open>
  \<open>TypedArray.prototype.set(src, offset)\<close>, for a source that fits (as it does at every
  call below).
\<close>

definition array_set :: "real list \<Rightarrow> real list \<Rightarrow> nat \<Rightarrow> real list" where
  "array_set target src offset = take offset target @ src @ drop (offset + length src) target"

text \<open>The loop of \<open>_mergeBuffers\<close>, with its \<open>break\<close> once no space is left.\<close>

fun mergeLoop :: "real list list \<Rightarrow> nat \<Rightarrow> nat \<Rightarrow> real list \<Rightarrow> real list" where
  "mergeLoop [] totalLen offset result = result"
| "mergeLoop (chunk # rest) totalLen offset result =
     (if totalLen \<le> offset then result
      else
        (let toCopy = min (length chunk) (totalLen - offset)
         in mergeLoop rest totalLen (offset + toCopy)
              (array_set result (take toCopy chunk) offset)))"

definition mergeBuffers :: "real list list \<Rightarrow> nat \<Rightarrow> real list" where
  "mergeBuffers buffers totalTargetLength =
     mergeLoop buffers totalTargetLength 0 (replicate totalTargetLength 0)"

text \<open>\<open>finalLength\<close> of \<open>stop()\<close>: a target of \<open>0\<close> is falsy and truncates nothing.\<close>

definition finalLength :: "recorder \<Rightarrow> int" where
  "finalLength r =
     (case targetSampleCount r of
        None \<Rightarrow> int (recordingLength r)
      | Some t \<Rightarrow> if t \<noteq> 0 then min (int (recordingLength r)) t else int (recordingLength r))"

text \<open>The silence test on the right channel: no sample above \<open>0.0001\<close> among the first 1000.\<close>

definition rightIsSilent :: "real list \<Rightarrow> bool" where
  "rightIsSilent rightBuffer =
     list_all (\<lambda>x. \<not> \<bar>x\<bar> > 1 / 10000) (take (min (length rightBuffer) 1000) rightBuffer)"

text \<open>One round of the fade loop, on both channels, head and tail.\<close>

definition fadeStep :: "nat \<Rightarrow> nat \<Rightarrow> nat \<Rightarrow> real list \<times> real list \<Rightarrow> real list \<times> real list" where
  "fadeStep fadeSamples final i lr =
     (let fadeMultiplier = real i / real fadeSamples;
          l1 = (fst lr)[i := fst lr ! i * fadeMultiplier];
          r1 = (snd lr)[i := snd lr ! i * fadeMultiplier];
          tailIndex = final - 1 - i
      in (l1[tailIndex := l1 ! tailIndex * fadeMultiplier],
          r1[tailIndex := r1 ! tailIndex * fadeMultiplier]))"

definition applyFade :: "nat \<Rightarrow> nat \<Rightarrow> real list \<times> real list \<Rightarrow> real list \<times> real list" where
  "applyFade fadeSamples final lr = fold (fadeStep fadeSamples final) [0..<fadeSamples] lr"

text \<open>
  The \<open>AudioBuffer\<close> that \<open>stop()\<close> hands to \<open>encodeWAV\<close>. \<open>_mergeBuffers\<close> is
  called before \<open>finalLength\<close> is compared with \<open>0\<close>, and a negative \<open>finalLength\<close>
  makes its \<open>new Float32Array(finalLength)\<close> throw a \<open>RangeError\<close>.
\<close>

definition stopBuffer :: "js_mul \<Rightarrow> recorder \<Rightarrow> rec_error + audio_buffer" where
  "stopBuffer mul r =
     (if finalLength r < 0 then Inl RangeError
      else
        (let final = nat (finalLength r);
             leftBuffer = mergeBuffers (leftBuffers r) final;
             rightBuffer = mergeBuffers (rightBuffers r) final
         in if final = 0 then Inr (createBuffer 128 (ctxSampleRate r))
            else
              (let rightBuffer' =
                     (if rightIsSilent rightBuffer then array_set rightBuffer leftBuffer 0
                      else rightBuffer);
                   fadeSamples = min (final div 2) (nat \<lfloor>mul (ctxSampleRate r) (5 / 1000)\<rfloor>);
                   faded = applyFade fadeSamples final (leftBuffer, rightBuffer')
               in Inr \<lparr>chanL = fst faded, chanR = snd faded,
                       abSampleRate = ctxSampleRate r\<rparr>)))"

text \<open>\<open>stop()\<close>: the recorder afterwards, and the encoded buffer it returns.\<close>

definition stop :: "js_mul \<Rightarrow> recorder \<Rightarrow> recorder \<times> (rec_error + wav_blob)" where
  "stop mul r =
     (r\<lparr>isRecording := False, onComplete := False, workletNode := False\<rparr>,
      case stopBuffer mul r of Inl e \<Rightarrow> Inl e | Inr b \<Rightarrow> Inr (encodeWAV b))"

text \<open>The number of frames per channel in what \<open>stop()\<close> returns.\<close>

definition stopFrames :: "js_mul \<Rightarrow> recorder \<Rightarrow> rec_error + nat" where
  "stopFrames mul r = (case snd (stop mul r) of Inl e \<Rightarrow> Inl e | Inr w \<Rightarrow> Inr (wavFrames w))"

section \<open>Sampler voices (src/audio/SamplerVoice.js, src/audio/SamplerService.js)\<close>

datatype trigger_mode = OneShot | Gate | Toggle

text \<open>
  The nodes a voice can be routed to: the sampler's shared output gain, and the
  \<open>chainInput\<close> gain of a track (by the track's identity).
\<close>

datatype audio_node = SamplerOutput | ChainInput nat | VoiceOutputBus nat

text \<open>
  \<open>Tone.Player\<close> is a library object; the repository does not contain it. The model
  keeps what the sampler reads and writes: \<open>loaded\<close>, \<open>loop\<close>, the state the player
  reports (started or stopped, and since when), and the buffer sources the player has
  started and that have not ended yet. A source has its start time, its own loop flag,
  and the time of the stop that is scheduled for it, if any. The player behaves as
  follows:
  \<^item> \<open>start(time)\<close> on a stopped player starts a new source; on a started player it
    first stops the sources it has at \<open>time\<close> (a restart);
  \<^item> \<open>stop(time)\<close> does nothing unless the player is started; then it schedules the
    stop of every source at \<open>time\<close>;
  \<^item> assigning \<open>loop\<close> a value it does not have passes the value to every source, and
    a source whose loop flag is assigned cancels the stop scheduled for it;
  \<^item> a source that reaches its end calls \<open>onstop\<close> and leaves the player, and a
    started player that is left without a source becomes stopped.
  The state kept is the one of the player's latest scheduled event, and \<open>start\<close> is
  taken to succeed on a loaded player.
\<close>

datatype player_state = Started | Stopped

record buffer_source =
  srcStart :: real
  srcLoop :: bool
  srcStop :: "real option"

record voice =
  voiceId :: nat
  mode :: trigger_mode
  transwaveEnabled :: bool
  chokeGroup :: js_value
  assignedUrl :: "string option"
  voiceName :: string
  isPlaying :: bool
  playerLoaded :: bool
  playerLoopFlag :: bool
  playerState :: player_state
  playerSince :: real
  activeSources :: "buffer_source list"
  playerOut :: "audio_node set"
  busOut :: "audio_node set"

text \<open>A number in a template string, for the default name \<open>Pad ${id}\<close>.\<close>

fun decimal :: "nat \<Rightarrow> string" where
  "decimal n =
     (if n < 10 then [char_of (48 + n)] else decimal (n div 10) @ [char_of (48 + n mod 10)])"

text \<open>The constructor; \<open>SamplerService\<close> then connects the voice to its output.\<close>

definition newVoice :: "nat \<Rightarrow> voice" where
  "newVoice i =
     \<lparr>voiceId = i, mode = OneShot, transwaveEnabled = False, chokeGroup = JNull,
      assignedUrl = None, voiceName = ''Pad '' @ decimal i, isPlaying = False, playerLoaded = False,
      playerLoopFlag = False, playerState = Stopped, playerSince = 0, activeSources = [],
      playerOut = {VoiceOutputBus i}, busOut = {}\<rparr>"

text \<open>\<open>source.stop(time)\<close> on every source of the player.\<close>

definition stopSources :: "real \<Rightarrow> buffer_source list \<Rightarrow> buffer_source list" where
  "stopSources time srcs = map (\<lambda>src. src\<lparr>srcStop := Some time\<rparr>) srcs"

text \<open>\<open>player.start(time, 0)\<close>.\<close>

definition playerStart :: "real \<Rightarrow> voice \<Rightarrow> voice" where
  "playerStart time v =
     (let kept = (if playerState v = Started then stopSources time (activeSources v)
                  else activeSources v)
      in v\<lparr>playerState := Started, playerSince := time,
           activeSources :=
             kept @ [\<lparr>srcStart = time, srcLoop = playerLoopFlag v, srcStop = None\<rparr>]\<rparr>)"

text \<open>\<open>player.stop(time)\<close>: nothing happens on a player that is not started.\<close>

definition playerStop :: "real \<Rightarrow> voice \<Rightarrow> voice" where
  "playerStop time v =
     (if playerState v = Started
      then v\<lparr>playerState := Stopped, playerSince := time,
             activeSources := stopSources time (activeSources v)\<rparr>
      else v)"

text \<open>The assignment \<open>player.loop = b\<close>.\<close>

definition setPlayerLoop :: "bool \<Rightarrow> voice \<Rightarrow> voice" where
  "setPlayerLoop b v =
     (if playerLoopFlag v = b then v
      else v\<lparr>playerLoopFlag := b,
             activeSources := map (\<lambda>src. src\<lparr>srcLoop := b, srcStop := None\<rparr>) (activeSources v)\<rparr>)"

text \<open>\<open>play(time)\<close> and \<open>stop(time)\<close>; an omitted time is the player's \<open>now\<close>.\<close>

definition play :: "real \<Rightarrow> voice \<Rightarrow> voice" where
  "play time v = (playerStart time v)\<lparr>isPlaying := True\<rparr>"

definition stopVoice :: "real option \<Rightarrow> real \<Rightarrow> voice \<Rightarrow> voice" where
  "stopVoice time now v = playerStop (case time of None \<Rightarrow> now | Some t \<Rightarrow> t) v"

text \<open>
  The \<open>player.onstop\<close> callback of the constructor, and the event that runs it: the
  source at position \<open>k\<close> reaches its end.
\<close>

definition onstop :: "voice \<Rightarrow> voice" where
  "onstop v = v\<lparr>isPlaying := False\<rparr>"

definition sourceEnded :: "nat \<Rightarrow> voice \<Rightarrow> voice" where
  "sourceEnded k v =
     (if k < length (activeSources v)
      then
        (let rest = take k (activeSources v) @ drop (Suc k) (activeSources v)
         in (onstop v)\<lparr>activeSources := rest,
                      playerState := (if rest = [] then Stopped else playerState v)\<rparr>)
      else v)"

text \<open>
  Whether the voice is sounding at an instant: one of its sources has started and is
  not past its scheduled stop and the fade-out that follows it (the player is built with
  \<open>fadeOut: 0.01\<close>). A source without a scheduled stop sounds until its buffer ends
  (never, while it loops), and then it is \<open>sourceEnded\<close> that takes it from the player.
\<close>

definition fadeOut :: real where
  "fadeOut = 1 / 100"

definition sourceSounding :: "real \<Rightarrow> buffer_source \<Rightarrow> bool" where
  "sourceSounding tm src =
     (srcStart src \<le> tm \<and> (case srcStop src of None \<Rightarrow> True | Some e \<Rightarrow> tm < e + fadeOut))"

definition soundingAt :: "real \<Rightarrow> voice \<Rightarrow> bool" where
  "soundingAt tm v = list_ex (sourceSounding tm) (activeSources v)"

definition safeTime :: "real option \<Rightarrow> real \<Rightarrow> real" where
  "safeTime time now = (case time of None \<Rightarrow> now + 5 / 100 | Some t \<Rightarrow> t)"

text \<open>Whether \<open>Tone.context.state\<close> is \<open>'running'\<close>.\<close>

datatype ctx_state = Running | Suspended

text \<open>
  The part of \<open>trigger(time)\<close> after the context check, with \<open>Tone.now()\<close> passed
  as \<open>now\<close>.
\<close>

definition triggerBody :: "real option \<Rightarrow> real \<Rightarrow> voice \<Rightarrow> voice" where
  "triggerBody time now v =
     (let st = safeTime time now in
      case mode v of
        Toggle \<Rightarrow>
          (if isPlaying v then setPlayerLoop False (stopVoice (Some st) now v)
           else play st (setPlayerLoop True v))
      | Gate \<Rightarrow>
          (let v1 = setPlayerLoop False v;
               v2 = (if isPlaying v1 then playerStop st v1 else v1)
           in play st v2)
      | OneShot \<Rightarrow>
          (let v1 = setPlayerLoop (transwaveEnabled v) v;
               v2 = (if isPlaying v1 then playerStop st v1 else v1)
           in play st v2))"

text \<open>
  \<open>trigger\<close> is an \<open>async\<close> function. Without a loaded sample it returns at once.
  While the context is running it runs to its end before it returns. Otherwise it is
  suspended at \<open>await Tone.start()\<close> and returns to its caller with the voice
  unchanged; \<open>triggerResume\<close> is the continuation that runs once the context has
  started (or \<open>Tone.start()\<close> has failed), with \<open>Tone.now()\<close> of that moment.
\<close>

definition trigger :: "ctx_state \<Rightarrow> real option \<Rightarrow> real \<Rightarrow> voice \<Rightarrow> voice" where
  "trigger ctx time now v =
     (if \<not> playerLoaded v then v
      else if ctx \<noteq> Running then v
      else triggerBody time now v)"

definition triggerSuspended :: "ctx_state \<Rightarrow> voice \<Rightarrow> bool" where
  "triggerSuspended ctx v = (playerLoaded v \<and> ctx \<noteq> Running)"

definition triggerResume :: "real option \<Rightarrow> real \<Rightarrow> voice \<Rightarrow> voice" where
  "triggerResume time now v = triggerBody time now v"

definition release :: "real option \<Rightarrow> real \<Rightarrow> voice \<Rightarrow> voice" where
  "release time now v =
     (if mode v = Gate then stopVoice (Some (safeTime time now)) now v else v)"

definition modeOfString :: "string \<Rightarrow> trigger_mode option" where
  "modeOfString m =
     (if m = ''oneshot'' then Some OneShot
      else if m = ''gate'' then Some Gate
      else if m = ''toggle'' then Some Toggle
      else None)"

definition setMode :: "string \<Rightarrow> real \<Rightarrow> voice \<Rightarrow> voice" where
  "setMode m now v =
     (case modeOfString m of
        None \<Rightarrow> v
      | Some md \<Rightarrow> stopVoice None now (v\<lparr>mode := md\<rparr>))"

text \<open>\<open>connect(dest)\<close>: the output bus is disconnected from everything, then connected.\<close>

definition connectVoice :: "audio_node \<Rightarrow> voice \<Rightarrow> voice" where
  "connectVoice dest v = v\<lparr>busOut := {dest}\<rparr>"

text \<open>
  \<open>load(url, name)\<close> up to the asynchronous \<open>player.load\<close>; \<open>loadDone\<close> is its
  successful completion.
\<close>

definition load :: "string \<Rightarrow> string option \<Rightarrow> voice \<Rightarrow> voice" where
  "load url name v =
     (let v1 = v\<lparr>assignedUrl := Some url\<rparr>
      in case name of
           None \<Rightarrow> v1
         | Some n \<Rightarrow> if n = [] then v1 else v1\<lparr>voiceName := n\<rparr>)"

definition loadDone :: "voice \<Rightarrow> voice" where
  "loadDone v = v\<lparr>playerLoaded := True\<rparr>"

text \<open>
  The service: its voices, in the order of the array. Its own output gain is the node
  \<open>SamplerOutput\<close>. The constructor makes voices \<open>1\<close> to \<open>20\<close>.
\<close>

record sampler =
  voices :: "voice list"

definition newSampler :: sampler where
  "newSampler = \<lparr>voices = map (\<lambda>i. connectVoice SamplerOutput (newVoice (Suc i))) [0..<20]\<rparr>"

text \<open>\<open>voices[padId - 1]\<close> for an integer pad id: \<open>undefined\<close> outside the array.\<close>

definition getVoice :: "sampler \<Rightarrow> int \<Rightarrow> voice option" where
  "getVoice s padId =
     (if 1 \<le> padId \<and> padId \<le> int (length (voices s))
      then Some (voices s ! nat (padId - 1)) else None)"

text \<open>A method call on the voice object \<open>voices[padId - 1]\<close>.\<close>

definition onVoice :: "int \<Rightarrow> (voice \<Rightarrow> voice) \<Rightarrow> sampler \<Rightarrow> sampler" where
  "onVoice padId f s =
     (if 1 \<le> padId \<and> padId \<le> int (length (voices s))
      then s\<lparr>voices := (voices s)[nat (padId - 1) := f (voices s ! nat (padId - 1))]\<rparr>
      else s)"

definition silenceChokeGroup :: "js_value \<Rightarrow> nat \<Rightarrow> real \<Rightarrow> sampler \<Rightarrow> sampler" where
  "silenceChokeGroup groupId excludePadId now s =
     s\<lparr>voices :=
         map (\<lambda>v. if chokeGroup v = groupId \<and> voiceId v \<noteq> excludePadId
                   then stopVoice None now v else v)
           (voices s)\<rparr>"

text \<open>
  \<open>triggerPad(padId)\<close> does not await \<open>voice.trigger()\<close>: it returns when the
  trigger has run to its end or is suspended. \<open>resumePad\<close> is the continuation of a
  suspended trigger of that pad.
\<close>

definition triggerPad :: "ctx_state \<Rightarrow> int \<Rightarrow> real \<Rightarrow> sampler \<Rightarrow> sampler" where
  "triggerPad ctx padId now s =
     (case getVoice s padId of
        None \<Rightarrow> s
      | Some voice \<Rightarrow>
          (let s1 = (if chokeGroup voice \<noteq> JNull
                     then silenceChokeGroup (chokeGroup voice) (voiceId voice) now s
                     else s)
           in onVoice padId (trigger ctx None now) s1))"

definition resumePad :: "int \<Rightarrow> real \<Rightarrow> sampler \<Rightarrow> sampler" where
  "resumePad padId now s = onVoice padId (triggerResume None now) s"

definition releasePad :: "int \<Rightarrow> real \<Rightarrow> sampler \<Rightarrow> sampler" where
  "releasePad padId now s = onVoice padId (release None now) s"

definition setPadChokeGroup :: "int \<Rightarrow> js_value \<Rightarrow> sampler \<Rightarrow> sampler" where
  "setPadChokeGroup padId grp s = onVoice padId (\<lambda>v. v\<lparr>chokeGroup := grp\<rparr>) s"

definition setPadMode :: "int \<Rightarrow> string \<Rightarrow> real \<Rightarrow> sampler \<Rightarrow> sampler" where
  "setPadMode padId m now s = onVoice padId (setMode m now) s"

text \<open>
  \<open>window.tracks\<close>, as \<open>assignSample\<close> reads it: it may be missing, an entry may be
  missing, and an entry's \<open>trackAudio\<close> and its \<open>chainInput\<close> may not be set yet.
\<close>

record track_audio =
  chainInput :: "audio_node option"

record track_entry =
  trackAudio :: "track_audio option"

type_synonym window_tracks = "track_entry option list option"

definition trackAt :: "window_tracks \<Rightarrow> int \<Rightarrow> track_entry option" where
  "trackAt tracks i =
     (case tracks of
        None \<Rightarrow> None
      | Some ts \<Rightarrow> if 0 \<le> i \<and> i < int (length ts) then ts ! nat i else None)"

definition defaultMode :: "int \<Rightarrow> string" where
  "defaultMode padId =
     (if padId \<ge> 1 \<and> padId \<le> 4 then ''oneshot''
      else if padId \<ge> 5 \<and> padId \<le> 8 then ''gate''
      else if padId \<ge> 9 \<and> padId \<le> 12 then ''toggle''
      else if padId \<ge> 13 \<and> padId \<le> 16 then ''gate''
      else if padId \<ge> 17 \<and> padId \<le> 20 then ''gate''
      else ''oneshot'')"

definition targetTrack :: "int \<Rightarrow> int" where
  "targetTrack padId =
     (if padId = 17 then 0 else if padId = 18 then 1 else if padId = 19 then 2
      else if padId = 20 then 3 else - 1)"

text \<open>The routing step of \<open>assignSample\<close> on the voice.\<close>

definition routeVoice :: "window_tracks \<Rightarrow> int \<Rightarrow> voice \<Rightarrow> voice" where
  "routeVoice tracks padId v =
     (if padId \<ge> 17 \<and> padId \<le> 20 then
        (let v1 = v\<lparr>playerOut := {}\<rparr>
         in case trackAt tracks (targetTrack padId) of
              None \<Rightarrow> connectVoice SamplerOutput v1
            | Some entry \<Rightarrow>
                (case trackAudio entry of
                   None \<Rightarrow> connectVoice SamplerOutput v1
                 | Some track \<Rightarrow>
                     (case chainInput track of
                        None \<Rightarrow> connectVoice SamplerOutput v1
                      | Some node \<Rightarrow> connectVoice node v1)))
      else connectVoice SamplerOutput v)"

text \<open>
  \<open>assignSample(padId, url, name)\<close>: the rejected promise is \<open>Inl\<close>, otherwise the
  service after the synchronous part of the call.
\<close>

definition assignSample ::
  "window_tracks \<Rightarrow> int \<Rightarrow> string \<Rightarrow> string option \<Rightarrow> real \<Rightarrow> sampler \<Rightarrow> string + sampler" where
  "assignSample tracks padId url name now s =
     (case getVoice s padId of
        None \<Rightarrow> Inl ''Invalid Pad ID''
      | Some voice \<Rightarrow>
          Inr (onVoice padId
                 (\<lambda>v. load url name (routeVoice tracks padId (setMode (defaultMode padId) now v)))
                 s))"

text \<open>
  The effect-chain input of the track at an index of \<open>window.tracks\<close>, when the track
  is initialised that far.
\<close>

definition chainInputOf :: "window_tracks \<Rightarrow> int \<Rightarrow> audio_node option" where
  "chainInputOf tracks i =
     (case trackAt tracks i of
        None \<Rightarrow> None
      | Some entry \<Rightarrow> (case trackAudio entry of None \<Rightarrow> None | Some track \<Rightarrow> chainInput track))"

text \<open>Two initialised tracks, as \<open>window.tracks\<close>.\<close>

definition twoTracks :: window_tracks where
  "twoTracks =
     Some [Some \<lparr>trackAudio = Some \<lparr>chainInput = Some (ChainInput 0)\<rparr>\<rparr>,
           Some \<lparr>trackAudio = Some \<lparr>chainInput = Some (ChainInput 1)\<rparr>\<rparr>]"

text \<open>The voices of a choke group that are sounding at an instant.\<close>

definition soundingIn :: "js_value \<Rightarrow> real \<Rightarrow> voice \<Rightarrow> bool" where
  "soundingIn g tm v = (chokeGroup v = g \<and> soundingAt tm v)"

definition soundingCount :: "js_value \<Rightarrow> real \<Rightarrow> sampler \<Rightarrow> nat" where
  "soundingCount g tm s = length (filter (soundingIn g tm) (voices s))"

text \<open>
  Whether the voice's player feeds a node: the player is connected to the voice's output
  bus, and the bus to the node.
\<close>

definition voiceFeeds :: "voice \<Rightarrow> audio_node \<Rightarrow> bool" where
  "voiceFeeds v node = (VoiceOutputBus (voiceId v) \<in> playerOut v \<and> node \<in> busOut v)"

text \<open>The pads are numbered as the constructor numbers them: voice \<open>i\<close> of the array has id \<open>i + 1\<close>.\<close>

definition padsNumbered :: "sampler \<Rightarrow> bool" where
  "padsNumbered s = (map voiceId (voices s) = [1..<Suc (length (voices s))])"

text \<open>
  Pads 1 and 2 in choke group \<open>1\<close>, both with a loaded sample and neither playing:
  \<open>chokeIdle\<close>. In \<open>chokeLatched\<close> pad 2 is in Toggle mode and has been triggered at
  times \<open>1\<close> and \<open>2\<close>, with the context running.
\<close>

definition chokeIdle :: sampler where
  "chokeIdle =
     onVoice 2 loadDone
       (onVoice 1 loadDone
         (setPadChokeGroup 2 (JNum 1) (setPadChokeGroup 1 (JNum 1) newSampler)))"

definition chokeLatched :: sampler where
  "chokeLatched =
     triggerPad Running 2 2 (triggerPad Running 2 1 (setPadMode 2 ''toggle'' 0 chokeIdle))"

text \<open>Single voices with a loaded sample, in Toggle and in Gate mode.\<close>

definition toggleVoice :: voice where
  "toggleVoice = loadDone (setMode ''toggle'' 0 (newVoice 9))"

definition gateVoice :: voice where
  "gateVoice = loadDone (setMode ''gate'' 0 (newVoice 5))"

text \<open>The service after a successful \<open>assignSample\<close> of a sample to a pad at time \<open>0\<close>.\<close>

definition assigned :: "window_tracks \<Rightarrow> int \<Rightarrow> sampler \<Rightarrow> sampler" where
  "assigned tracks padId s =
     (case assignSample tracks padId ''kick.wav'' (Some ''kick'') 0 s of
        Inl e \<Rightarrow> s
      | Inr s' \<Rightarrow> s')"

section \<open>Global LFOs and parameter bindings (src/audio/AudioContextManager.js, src/audio/TrackAudio.js)\<close>

text \<open>
  The controls an LFO can drive: the six fixed ones, and a \<open>Tone.Param\<close> of an effect
  (by the identity of the parameter object).
\<close>

datatype param = Volume | Pan | Pitch | Bass | Mid | Treble | EffectParam nat

text \<open>
  The nodes of the modulation graph: a global LFO, and the \<open>Tone.Scale\<close>,
  \<open>Tone.Multiply\<close> and \<open>Tone.Add\<close> objects that \<open>connectLFO\<close> creates (by identity),
  and the driven parameter.
\<close>

datatype mod_node = LfoNode nat | ScaleNode nat | MultiplyNode nat | AddNode nat | ParamNode param

type_synonym mod_edge = "mod_node \<times> mod_node"

text \<open>The manager's two LFO fields: \<open>null\<close> until \<open>init()\<close> has run.\<close>

record manager =
  lfo :: "mod_node option"
  lfo2 :: "mod_node option"

definition initManager :: manager where
  "initManager = \<lparr>lfo = Some (LfoNode 1), lfo2 = Some (LfoNode 2)\<rparr>"

text \<open>\<open>getLfo(index)\<close>: \<open>index === 1 ? this.lfo : this.lfo2\<close>.\<close>

definition getLfo :: "manager \<Rightarrow> js_value \<Rightarrow> mod_node option" where
  "getLfo m index = (if index = JNum 1 then lfo m else lfo2 m)"

text \<open>
  An entry of \<open>lfoConnections\<close>: the scale node with its range, the negate and add
  nodes of a reversed binding (with the addend), the parameter and the source LFO.
\<close>

record lfo_conn =
  connScale :: nat
  scaleMin :: real
  scaleMax :: real
  connReverse :: "(nat \<times> nat) option"
  addend :: real
  connParam :: param
  connSource :: mod_node

text \<open>
  The LFO state of a track. \<open>slotParam\<close> stands for the lookup of a name
  \<open>slotN.property\<close> in the effect array (\<open>parseInt\<close>, the slot's effect, and the
  \<open>Tone.Param\<close> found on it), which \<open>getAudioParamByName\<close> tries last.
  \<open>nextNode\<close> is the supply of identities for new nodes.
\<close>

record track_lfo =
  lfoConnections :: "string \<rightharpoonup> lfo_conn"
  lfoReverseState :: "string \<Rightarrow> bool"
  slotParam :: "string \<rightharpoonup> param"
  modGraph :: "mod_edge set"
  nextNode :: nat

definition newTrackLfo :: "(string \<rightharpoonup> param) \<Rightarrow> track_lfo" where
  "newTrackLfo slots =
     \<lparr>lfoConnections = Map.empty, lfoReverseState = (\<lambda>n. False), slotParam = slots,
      modGraph = {}, nextNode = 0\<rparr>"

definition getAudioParamByName :: "track_lfo \<Rightarrow> string \<Rightarrow> param option" where
  "getAudioParamByName t paramName =
     (if paramName = ''volume'' then Some Volume
      else if paramName = ''pan'' then Some Pan
      else if paramName = ''pitch'' then Some Pitch
      else if paramName = ''bass'' then Some Bass
      else if paramName = ''mid'' then Some Mid
      else if paramName = ''treble'' then Some Treble
      else if take 4 paramName = ''slot'' then slotParam t paramName
      else None)"

text \<open>The connections a binding consists of, in the order \<open>disconnectLFO\<close> removes them.\<close>

definition connEdges :: "lfo_conn \<Rightarrow> mod_edge list" where
  "connEdges c =
     (case connReverse c of
        Some (negate, addMax) \<Rightarrow>
          [(connSource c, ScaleNode (connScale c)),
           (ScaleNode (connScale c), MultiplyNode negate),
           (MultiplyNode negate, AddNode addMax),
           (AddNode addMax, ParamNode (connParam c))]
      | None \<Rightarrow>
          [(connSource c, ScaleNode (connScale c)),
           (ScaleNode (connScale c), ParamNode (connParam c))])"

text \<open>
  The \<open>try\<close> block of \<open>disconnectLFO\<close>: \<open>disconnect\<close> throws on a connection that does
  not exist, and the \<open>catch\<close> leaves the remaining connections in place.
\<close>

fun disconnectAll :: "mod_edge list \<Rightarrow> mod_edge set \<Rightarrow> mod_edge set" where
  "disconnectAll [] g = g"
| "disconnectAll (e # es) g = (if e \<in> g then disconnectAll es (g - {e}) else g)"

definition disconnectLFO :: "string \<Rightarrow> track_lfo \<Rightarrow> track_lfo" where
  "disconnectLFO paramName t =
     (case lfoConnections t paramName of
        None \<Rightarrow> t
      | Some conn \<Rightarrow>
          t\<lparr>modGraph := disconnectAll (connEdges conn) (modGraph t),
            lfoConnections := (lfoConnections t)(paramName := None)\<rparr>)"

text \<open>
  \<open>connectLFO(paramName, min, max, lfoIndex = 1)\<close>: an omitted index is \<open>1\<close>. The old
  binding is removed first; an unresolved parameter or a missing LFO ends the call there.
\<close>

definition connectLFO ::
  "manager \<Rightarrow> string \<Rightarrow> real \<Rightarrow> real \<Rightarrow> js_value \<Rightarrow> track_lfo \<Rightarrow> track_lfo" where
  "connectLFO m paramName mn mx lfoIndexArg t =
     (let lfoIndex = (if lfoIndexArg = JUndefined then JNum 1 else lfoIndexArg);
          t1 = disconnectLFO paramName t
      in case getAudioParamByName t1 paramName of
           None \<Rightarrow> t1
         | Some prm \<Rightarrow>
             (case getLfo m lfoIndex of
                None \<Rightarrow> t1
              | Some lfoNode \<Rightarrow>
                  (let k = nextNode t1;
                       conn =
                         (if lfoReverseState t1 paramName
                          then \<lparr>connScale = k, scaleMin = mn, scaleMax = mx,
                                connReverse = Some (k + 1, k + 2), addend = mx,
                                connParam = prm, connSource = lfoNode\<rparr>
                          else \<lparr>connScale = k, scaleMin = mn, scaleMax = mx,
                                connReverse = None, addend = 0,
                                connParam = prm, connSource = lfoNode\<rparr>)
                   in t1\<lparr>modGraph := modGraph t1 \<union> set (connEdges conn),
                          lfoConnections := (lfoConnections t1)(paramName \<mapsto> conn),
                          nextNode := k + 3\<rparr>)))"

text \<open>
  The identities a state has handed out are below \<open>nextNode\<close>: no connection of the
  graph mentions a node that is still to be created.
\<close>

fun knownNode :: "nat \<Rightarrow> mod_node \<Rightarrow> bool" where
  "knownNode n (ScaleNode k) = (k < n)"
| "knownNode n (MultiplyNode k) = (k < n)"
| "knownNode n (AddNode k) = (k < n)"
| "knownNode n (LfoNode k) = True"
| "knownNode n (ParamNode p) = True"

definition knownEdge :: "nat \<Rightarrow> mod_edge \<Rightarrow> bool" where
  "knownEdge n e = (knownNode n (fst e) \<and> knownNode n (snd e))"

definition wellFormed :: "track_lfo \<Rightarrow> bool" where
  "wellFormed t = (\<forall>e \<in> modGraph t. knownEdge (nextNode t) e)"

section \<open>Shared input streams (AudioContextManager.getSharedInputStream)\<close>

text \<open>
  The cache \<open>inputStreams\<close> maps a key to a \<open>MediaStream\<close> (by identity). Around it, the
  environment: which streams are active, the \<open>getUserMedia\<close> requests issued so far (each
  with the device it asked for, \<open>None\<close> for no constraint), and the identity of the next
  stream the browser creates. A stream is active when \<open>getUserMedia\<close> resolves to it.
\<close>

record stream_cache =
  inputStreams :: "string \<rightharpoonup> nat"
  streamActive :: "nat \<Rightarrow> bool"
  opened :: "string option list"
  nextStream :: nat

definition emptyCache :: stream_cache where
  "emptyCache = \<lparr>inputStreams = Map.empty, streamActive = (\<lambda>s. False), opened = [],
                  nextStream = 0\<rparr>"

text \<open>\<open>deviceId || 'default'\<close>: \<open>null\<close> and the empty string are falsy.\<close>

definition truthyDevice :: "string option \<Rightarrow> string option" where
  "truthyDevice deviceId = (case deviceId of None \<Rightarrow> None | Some d \<Rightarrow> if d = [] then None else Some d)"

definition cacheKey :: "string option \<Rightarrow> string" where
  "cacheKey deviceId = (case truthyDevice deviceId of None \<Rightarrow> ''default'' | Some d \<Rightarrow> d)"

text \<open>
  The call runs up to its \<open>await\<close>: either it returns the cached stream, or it has issued
  a \<open>getUserMedia\<close> request and is suspended until that resolves.
\<close>

datatype stream_call = Returned nat | Awaiting string

definition getSharedInputStream_begin ::
  "string option \<Rightarrow> stream_cache \<Rightarrow> stream_call \<times> stream_cache" where
  "getSharedInputStream_begin deviceId c =
     (let key = cacheKey deviceId;
          request = (\<lambda>c'. (Awaiting key, c'\<lparr>opened := opened c' @ [truthyDevice deviceId]\<rparr>))
      in case inputStreams c key of
           None \<Rightarrow> request c
         | Some stream \<Rightarrow>
             if streamActive c stream then (Returned stream, c)
             else request (c\<lparr>inputStreams := (inputStreams c)(key := None)\<rparr>))"

text \<open>
  The continuation after the \<open>await\<close>, when \<open>getUserMedia\<close> has resolved to a new
  stream: the stream is stored under the call's key and returned.
\<close>

definition getSharedInputStream_resume :: "string \<Rightarrow> stream_cache \<Rightarrow> nat \<times> stream_cache" where
  "getSharedInputStream_resume key c =
     (let stream = nextStream c
      in (stream,
          c\<lparr>inputStreams := (inputStreams c)(key \<mapsto> stream),
            streamActive := (streamActive c)(stream := True),
            nextStream := stream + 1\<rparr>))"

text \<open>A call that is awaited before anything else runs.\<close>

definition getSharedInputStream :: "string option \<Rightarrow> stream_cache \<Rightarrow> nat \<times> stream_cache" where
  "getSharedInputStream deviceId c =
     (case getSharedInputStream_begin deviceId c of
        (Returned stream, c') \<Rightarrow> (stream, c')
      | (Awaiting key, c') \<Rightarrow> getSharedInputStream_resume key c')"

section \<open>Cast audio frames (startAudioPiping in src/cast/CastManager.js)\<close>

text \<open>The headroom factor and the clamp to \<open>[-1, 1]\<close>.\<close>

definition attenuate :: "real \<Rightarrow> real" where
  "attenuate x = (let l = x * (95 / 100) in if l > 1 then 1 else if l < - 1 then - 1 else l)"

definition quantize24 :: "real \<Rightarrow> int" where
  "quantize24 x = \<lfloor>attenuate x * 8388607\<rfloor>"

text \<open>
  The bitwise operators work on the 32-bit two's complement value of their operand;
  \<open>>>\<close> keeps the sign. Each result is stored in a \<open>Uint8Array\<close>.
\<close>

definition toInt32 :: "int \<Rightarrow> int" where
  "toInt32 n = signed_take_bit 31 n"

definition pcm24Bytes :: "int \<Rightarrow> 8 word list" where
  "pcm24Bytes n =
     [word_of_int (toInt32 n AND 255),
      word_of_int (drop_bit 8 (toInt32 n) AND 255),
      word_of_int (drop_bit 16 (toInt32 n) AND 255)]"

text \<open>One stereo frame in the default (24-bit) mode.\<close>

definition encodeFrame :: "real \<Rightarrow> real \<Rightarrow> 8 word list" where
  "encodeFrame l r = pcm24Bytes (quantize24 l) @ pcm24Bytes (quantize24 r)"

text \<open>
  A whole batch: the loop runs over the \<open>leftData.length\<close> frames. Where the right
  channel is shorter, \<open>rightData[i]\<close> is \<open>undefined\<close>, the sample is \<open>NaN\<close>, and the
  three bytes written for it are \<open>0\<close>.
\<close>

definition encodeBatch :: "real list \<Rightarrow> real list \<Rightarrow> 8 word list" where
  "encodeBatch leftData rightData =
     concat (map (\<lambda>i. pcm24Bytes (quantize24 (leftData ! i))
                       @ (if i < length rightData then pcm24Bytes (quantize24 (rightData ! i))
                          else [0, 0, 0]))
               [0..<length leftData])"

text \<open>
  Modelled from the spec: the receiver that decodes the pushed frames is not under src/.
  The spec names the wire format, 24-bit signed little-endian: three bytes, least
  significant first, read as a two's complement integer. \<open>decodeSample\<close> undoes the
  encoder's scaling by \<open>8388607\<close>.
\<close>

definition decode24 :: "8 word list \<Rightarrow> int" where
  "decode24 bs =
     (case bs of
        [b0, b1, b2] \<Rightarrow>
          (let u = uint b0 + 256 * uint b1 + 65536 * uint b2
           in if u \<ge> 8388608 then u - 16777216 else u)
      | _ \<Rightarrow> 0)"

definition decodeSample :: "8 word list \<Rightarrow> real" where
  "decodeSample bs = real_of_int (decode24 bs) / 8388607"

section \<open>Properties of the loop transport\<close>

lemma js_rem_range_nonneg:
  assumes "0 < y" and "0 \<le> x"
  shows "0 \<le> js_rem x y \<and> js_rem x y < y"
proof -
  have "\<not> x / y < 0" using assms by (simp add: not_less)
  then have tr: "js_trunc (x / y) = \<lfloor>x / y\<rfloor>" by (simp add: js_trunc_def)
  have eq: "js_rem x y = y * (x / y - of_int \<lfloor>x / y\<rfloor>)"
    using assms(1) by (simp add: js_rem_def tr algebra_simps)
  have "0 \<le> x / y - of_int \<lfloor>x / y\<rfloor>" and "x / y - of_int \<lfloor>x / y\<rfloor> < 1"
    by linarith+
  then show ?thesis
    using assms(1) eq by (simp add: mult_less_cancel_left2)
qed

lemma js_rem_range_neg:
  assumes "0 < y" and "x < 0"
  shows "- y < js_rem x y \<and> js_rem x y \<le> 0"
proof -
  have "x / y < 0" using assms by (simp add: divide_neg_pos)
  then have tr: "js_trunc (x / y) = - \<lfloor>- x / y\<rfloor>" by (simp add: js_trunc_def)
  have eq: "js_rem x y = - (y * (- x / y - of_int \<lfloor>- x / y\<rfloor>))"
    using assms(1) by (simp add: js_rem_def tr algebra_simps)
  have "0 \<le> - x / y - of_int \<lfloor>- x / y\<rfloor>" and "- x / y - of_int \<lfloor>- x / y\<rfloor> < 1"
    by linarith+
  then show ?thesis
    using assms(1) eq by (simp add: mult_less_cancel_left2)
qed

text \<open>
  In reverse the remainder is normalised (\<open>if (relPos < 0) relPos += loopLen\<close>), so the
  position lies in the loop region for every offset, rate and elapsed time.
\<close>

lemma getCurrentPosition_reverse_in_loop:
  assumes "\<not> recorderIsRecording t" and "playerStarted t" and "bufferDuration t \<noteq> 0"
    and "playerLoop t" and "playerReverse t"
    and "js_or (loopEnd t) (bufferDuration t) > js_or (loopStart t) 0"
  shows "js_or (loopStart t) 0 \<le> getCurrentPosition t now
       \<and> getCurrentPosition t now < js_or (loopEnd t) (bufferDuration t)"
proof -
  define lStart where "lStart = js_or (loopStart t) 0"
  define lEnd where "lEnd = js_or (loopEnd t) (bufferDuration t)"
  define x where
    "x = js_or_undef (playStartOffset t) lStart - lStart
         - (now - playStartTime t) * rateOf (playbackRate t)"
  define r where "r = js_rem x (lEnd - lStart)"
  have len: "0 < lEnd - lStart" using assms(6) by (simp add: lStart_def lEnd_def)
  have pos: "getCurrentPosition t now = lStart + (if r < 0 then r + (lEnd - lStart) else r)"
    using assms len
    by (simp add: getCurrentPosition_def Let_def lStart_def lEnd_def x_def r_def)
  have "0 \<le> (if r < 0 then r + (lEnd - lStart) else r)
      \<and> (if r < 0 then r + (lEnd - lStart) else r) < lEnd - lStart"
  proof (cases "0 \<le> x")
    case True
    then show ?thesis using js_rem_range_nonneg [OF len True] by (simp add: r_def)
  next
    case False
    then have "x < 0" by simp
    from js_rem_range_neg [OF len this] show ?thesis by (auto simp: r_def)
  qed
  then show ?thesis using pos by (simp add: lStart_def lEnd_def)
qed

text \<open>
  Forward, the remainder is used as it is: the position lies in the loop region when the
  dividend \<open>relStart + elapsed\<close> is not negative.
\<close>

lemma getCurrentPosition_forward_in_loop:
  assumes "\<not> recorderIsRecording t" and "playerStarted t" and "bufferDuration t \<noteq> 0"
    and "playerLoop t" and "\<not> playerReverse t"
    and "js_or (loopEnd t) (bufferDuration t) > js_or (loopStart t) 0"
    and "0 \<le> js_or_undef (playStartOffset t) (js_or (loopStart t) 0) - js_or (loopStart t) 0
              + (now - playStartTime t) * rateOf (playbackRate t)"
  shows "js_or (loopStart t) 0 \<le> getCurrentPosition t now
       \<and> getCurrentPosition t now < js_or (loopEnd t) (bufferDuration t)"
proof -
  define lStart where "lStart = js_or (loopStart t) 0"
  define lEnd where "lEnd = js_or (loopEnd t) (bufferDuration t)"
  define x where
    "x = js_or_undef (playStartOffset t) lStart - lStart
         + (now - playStartTime t) * rateOf (playbackRate t)"
  have len: "0 < lEnd - lStart" using assms(6) by (simp add: lStart_def lEnd_def)
  have x0: "0 \<le> x" using assms(7) by (simp add: x_def lStart_def)
  have pos: "getCurrentPosition t now = lStart + js_rem x (lEnd - lStart)"
    using assms(1-5) len
    by (simp add: getCurrentPosition_def Let_def lStart_def lEnd_def x_def)
  from js_rem_range_nonneg [OF len x0] pos show ?thesis
    by (simp add: lStart_def lEnd_def)
qed

text \<open>
  Claim C1. The read position of a looping player with \<open>loopEnd > loopStart\<close> lies in
  \<open>[loopStart, loopEnd)\<close> for every rate, play-start offset and elapsed time. The
  forward branch misses the normalisation of a negative remainder that the reverse branch
  has: after \<open>startPlayback(1)\<close> on a ten second buffer whose loop region is \<open>[2, 4)\<close>, at
  rate \<open>1\<close> and with no time elapsed, \<open>getCurrentPosition\<close> returns \<open>1\<close>, which is
  below \<open>loopStart\<close>.
\<close>

theorem getCurrentPosition_forward_below_loopStart:
  "getCurrentPosition (startPlayback loopTrack (Some 1) 5) 5 = 1
   \<and> loopEnd (startPlayback loopTrack (Some 1) 5) > loopStart (startPlayback loopTrack (Some 1) 5)
   \<and> playerLoop (startPlayback loopTrack (Some 1) 5)
   \<and> \<not> (loopStart (startPlayback loopTrack (Some 1) 5)
          \<le> getCurrentPosition (startPlayback loopTrack (Some 1) 5) 5)"
  by (simp add: getCurrentPosition_def startPlayback_def loopTrack_def rateOf_def js_or_def
      js_or_undef_def js_rem_def js_trunc_def Let_def)

section \<open>Properties of the recorder\<close>

lemma length_array_set:
  "offset + length src \<le> length target \<Longrightarrow> length (array_set target src offset) = length target"
  by (simp add: array_set_def)

lemma length_mergeLoop:
  "length result = totalLen \<Longrightarrow> length (mergeLoop buffers totalLen offset result) = totalLen"
proof (induction buffers arbitrary: offset result)
  case Nil
  then show ?case by simp
next
  case (Cons chunk rest)
  show ?case
  proof (cases "totalLen \<le> offset")
    case True
    then show ?thesis using Cons.prems by simp
  next
    case False
    define toCopy where "toCopy = min (length chunk) (totalLen - offset)"
    have "length (array_set result (take toCopy chunk) offset) = totalLen"
      using False Cons.prems by (simp add: length_array_set toCopy_def)
    from Cons.IH [OF this] show ?thesis
      using False by (simp add: toCopy_def Let_def)
  qed
qed

lemma length_mergeBuffers: "length (mergeBuffers buffers n) = n"
  by (simp add: mergeBuffers_def length_mergeLoop)

lemma length_fold_fadeStep:
  "length (fst (fold (fadeStep k n) is lr)) = length (fst lr)
   \<and> length (snd (fold (fadeStep k n) is lr)) = length (snd lr)"
  by (induction "is" arbitrary: lr) (simp_all add: fadeStep_def Let_def)

lemma length_applyFade:
  "length (fst (applyFade k n lr)) = length (fst lr)"
  "length (snd (applyFade k n lr)) = length (snd lr)"
  by (simp_all add: applyFade_def length_fold_fadeStep)

lemma fold_fadeStep_same:
  "fst lr = snd lr \<Longrightarrow> fst (fold (fadeStep k n) is lr) = snd (fold (fadeStep k n) is lr)"
  by (induction "is" arbitrary: lr) (simp_all add: fadeStep_def Let_def)

lemma applyFade_same: "snd (applyFade k n (l, l)) = fst (applyFade k n (l, l))"
  using fold_fadeStep_same [of "(l, l)" k n "[0..<k]"] by (simp add: applyFade_def)

lemma length_interleave: "length (interleave l r) = 2 * min (length l) (length r)"
proof -
  have "length (concat (map (\<lambda>(a, b). [a, b]) ps)) = 2 * length ps" for ps :: "(real \<times> real) list"
    by (induction ps) auto
  then show ?thesis by (simp add: interleave_def)
qed

lemma wavFrames_encodeWAV:
  "length (chanR b) = length (chanL b) \<Longrightarrow> wavFrames (encodeWAV b) = length (chanL b)"
  by (simp add: wavFrames_def encodeWAV_def Let_def length_interleave)

lemma interleave_replicate:
  "interleave (replicate n a) (replicate n b) = concat (replicate n [a, b])"
  by (induction n) (simp_all add: interleave_def)

lemma concat_replicate_pair: "concat (replicate n [a, a]) = replicate (2 * n) a"
  by (induction n) simp_all

lemma encodeWAV_silence:
  "wavSamples (encodeWAV (createBuffer n rate)) = replicate (2 * n) 0"
  by (simp add: encodeWAV_def createBuffer_def Let_def interleave_replicate
      concat_replicate_pair floatTo16BitPCM_def js_trunc_def)

lemma stopBuffer_lengths:
  assumes "stopBuffer mul r = Inr b"
  shows "length (chanR b) = length (chanL b)
       \<and> length (chanL b) = (if finalLength r = 0 then 128 else nat (finalLength r))"
proof (cases "finalLength r = 0")
  case True
  then show ?thesis using assms by (auto simp: stopBuffer_def createBuffer_def)
next
  case False
  then show ?thesis
    using assms
    by (auto simp: stopBuffer_def Let_def length_applyFade length_mergeBuffers
        length_array_set split: if_splits)
qed

lemma stopBuffer_Inr:
  "0 \<le> finalLength r \<Longrightarrow> \<exists>b. stopBuffer mul r = Inr b"
  by (simp add: stopBuffer_def Let_def)

lemma stopFrames_finalLength:
  assumes "0 \<le> finalLength r"
  shows "stopFrames mul r = Inr (if finalLength r = 0 then 128 else nat (finalLength r))"
proof -
  from stopBuffer_Inr [OF assms] obtain b where b: "stopBuffer mul r = Inr b" ..
  from stopBuffer_lengths [OF b] show ?thesis
    by (simp add: stopFrames_def stop_def b wavFrames_encodeWAV)
qed

lemma target_onmessage [simp]: "targetSampleCount (onmessage m r) = targetSampleCount r"
  by (simp add: onmessage_def Let_def split: worklet_msg.splits option.splits)

lemma target_fold_onmessage [simp]:
  "targetSampleCount (fold onmessage msgs r) = targetSampleCount r"
  by (induction msgs arbitrary: r) simp_all

lemma target_startRecording:
  "d \<noteq> 0 \<Longrightarrow>
     targetSampleCount (startRecording mul (Some d) rate) = Some \<lfloor>mul d (js_or rate 48000)\<rfloor>"
  by (simp add: startRecording_def recorderStart_def newRecorder_def Let_def)

lemma target_session:
  "d \<noteq> 0 \<Longrightarrow>
     targetSampleCount (session mul (Some d) rate msgs) = Some \<lfloor>mul d (js_or rate 48000)\<rfloor>"
  by (simp add: session_def target_startRecording)

text \<open>
  Claim C2, as stated, fails: a session with a two second target that is stopped before
  the first chunk arrives has recorded \<open>0\<close> samples and returns \<open>128\<close> frames, not
  \<open>min 0 96000\<close>; and with a target of \<open>1 / 1024\<close> of a second (\<open>46\<close> samples) the
  same \<open>128\<close> frames exceed the target. (Both products are exact for the engine:
  \<open>2 * 48000\<close> is an integer and \<open>1 / 1024\<close> is a power of two.)
\<close>

theorem stop_before_first_chunk_returns_128:
  "stopFrames (*) (session (*) (Some 2) 48000 []) = Inr 128
   \<and> targetSampleCount (session (*) (Some 2) 48000 []) = Some 96000
   \<and> min (recordingLength (session (*) (Some 2) 48000 [])) 96000 = 0
   \<and> stopFrames (*) (session (*) (Some (1 / 1024)) 48000 []) = Inr 128
   \<and> targetSampleCount (session (*) (Some (1 / 1024)) 48000 []) = Some 46"
  by (simp add: session_def startRecording_def newRecorder_def recorderStart_def
      stopFrames_finalLength finalLength_def js_or_def Let_def)

text \<open>
  Claim C2, amended. For a session started with a target duration, the target is
  \<open>Math.floor\<close> of the product \<open>duration * sampleRate\<close> as the engine computes it
  (with \<open>48000\<close> for a falsy sample rate). When that target is at least \<open>1\<close>, \<open>stop()\<close>
  returns exactly \<open>min recorded target\<close> frames per channel when at least one sample was
  recorded, and the \<open>128\<close>-frame silent buffer when none was; so the buffer never exceeds a
  target of at least \<open>128\<close> samples (\<open>96000\<close> for two seconds at \<open>48000\<close>).
\<close>

theorem stop_frames_of_session:
  assumes "d \<noteq> 0" and "1 \<le> \<lfloor>mul d (js_or rate 48000)\<rfloor>"
  shows "targetSampleCount (session mul (Some d) rate msgs) = Some \<lfloor>mul d (js_or rate 48000)\<rfloor>
       \<and> stopFrames mul (session mul (Some d) rate msgs) =
           Inr (if recordingLength (session mul (Some d) rate msgs) = 0 then 128
                else min (recordingLength (session mul (Some d) rate msgs))
                       (nat \<lfloor>mul d (js_or rate 48000)\<rfloor>))
       \<and> (128 \<le> \<lfloor>mul d (js_or rate 48000)\<rfloor> \<longrightarrow>
            (\<exists>n. stopFrames mul (session mul (Some d) rate msgs) = Inr n
                 \<and> n \<le> nat \<lfloor>mul d (js_or rate 48000)\<rfloor>))"
proof -
  define s where "s = session mul (Some d) rate msgs"
  define t where "t = \<lfloor>mul d (js_or rate 48000)\<rfloor>"
  have t1: "1 \<le> t" using assms(2) by (simp add: t_def)
  have tgt: "targetSampleCount s = Some t"
    using target_session [OF assms(1), of mul rate msgs] by (simp add: s_def t_def)
  have fl: "finalLength s = min (int (recordingLength s)) t"
    using t1 by (simp add: finalLength_def tgt)
  then have nonneg: "0 \<le> finalLength s" using t1 by simp
  have zero: "finalLength s = 0 \<longleftrightarrow> recordingLength s = 0"
    using t1 fl by (auto simp: min_def)
  have natmin: "nat (finalLength s) = min (recordingLength s) (nat t)"
    using t1 fl by (auto simp: min_def)
  have frames: "stopFrames mul s = Inr (if recordingLength s = 0 then 128
                                        else min (recordingLength s) (nat t))"
    using stopFrames_finalLength [OF nonneg, of mul] zero natmin by simp
  moreover have "128 \<le> t \<longrightarrow> (\<exists>n. stopFrames mul s = Inr n \<and> n \<le> nat t)"
    using frames by auto
  ultimately show ?thesis using tgt unfolding s_def t_def by blast
qed

theorem stop_frames_of_session_witness:
  "(2::real) \<noteq> 0 \<and> 1 \<le> \<lfloor>(2::real) * js_or 48000 48000\<rfloor>
   \<and> targetSampleCount (session (*) (Some 2) 48000
        [Alive, Data [1/2, 1/2, 1/4, 1/4] [0, 0, 0, 0], Peak 1]) = Some 96000
   \<and> stopFrames (*) (session (*) (Some 2) 48000
        [Alive, Data [1/2, 1/2, 1/4, 1/4] [0, 0, 0, 0], Peak 1]) = Inr 4
   \<and> (\<exists>n. stopFrames (*) (session (*) (Some 2) 48000
              [Alive, Data [1/2, 1/2, 1/4, 1/4] [0, 0, 0, 0], Peak 1]) = Inr n \<and> n \<le> 96000)"
proof -
  have len: "recordingLength (session (*) (Some 2) 48000
      [Alive, Data [1/2, 1/2, 1/4, 1/4] [0, 0, 0, 0], Peak 1]) = 4"
    by (simp add: session_def startRecording_def newRecorder_def recorderStart_def
        onmessage_def js_or_def Let_def)
  have sr: "js_or 48000 48000 = (48000::real)" by (simp add: js_or_def)
  show ?thesis
    using stop_frames_of_session [of 2 "(*)" 48000 "[Alive, Data [1/2, 1/2, 1/4, 1/4] [0, 0, 0, 0], Peak 1]"]
    by (simp add: len sr)
qed

lemma array_set_whole: "length src = length target \<Longrightarrow> array_set target src 0 = src"
  by (simp add: array_set_def)

text \<open>
  What \<open>stop()\<close> does when \<open>finalLength\<close> is not negative. With \<open>finalLength = 0\<close> it
  returns the encoding of a \<open>128\<close>-frame buffer of zeros; with samples to return and a
  right channel that passes the silence test, the buffer that is encoded has the left
  channel's samples in both channels (the copy is made before the fade, which treats
  both channels alike).
\<close>

lemma stop_synthesizes_valid_output:
  "(finalLength r = 0 \<longrightarrow>
      snd (stop mul r) = Inr (encodeWAV (createBuffer 128 (ctxSampleRate r)))
      \<and> stopFrames mul r = Inr 128
      \<and> wavSamples (encodeWAV (createBuffer 128 (ctxSampleRate r))) = replicate 256 0)
   \<and> (0 < finalLength r
        \<and> rightIsSilent (mergeBuffers (rightBuffers r) (nat (finalLength r))) \<longrightarrow>
      (\<exists>b. stopBuffer mul r = Inr b \<and> snd (stop mul r) = Inr (encodeWAV b) \<and> chanR b = chanL b
           \<and> chanL b =
               fst (applyFade
                     (min (nat (finalLength r) div 2) (nat \<lfloor>mul (ctxSampleRate r) (5 / 1000)\<rfloor>))
                     (nat (finalLength r))
                     (mergeBuffers (leftBuffers r) (nat (finalLength r)),
                      mergeBuffers (leftBuffers r) (nat (finalLength r))))))"
proof (intro conjI impI)
  assume fl: "finalLength r = 0"
  then have sb: "stopBuffer mul r = Inr (createBuffer 128 (ctxSampleRate r))"
    by (simp add: stopBuffer_def Let_def)
  show "snd (stop mul r) = Inr (encodeWAV (createBuffer 128 (ctxSampleRate r)))"
    by (simp add: stop_def sb)
  show "stopFrames mul r = Inr 128"
    using stopFrames_finalLength [of r mul] fl by simp
  show "wavSamples (encodeWAV (createBuffer 128 (ctxSampleRate r))) = replicate 256 0"
    using encodeWAV_silence [of 128 "ctxSampleRate r"] by simp
next
  assume a: "0 < finalLength r
    \<and> rightIsSilent (mergeBuffers (rightBuffers r) (nat (finalLength r)))"
  define n where "n = nat (finalLength r)"
  define L where "L = mergeBuffers (leftBuffers r) n"
  define k where "k = min (n div 2) (nat \<lfloor>mul (ctxSampleRate r) (5 / 1000)\<rfloor>)"
  have n0: "n \<noteq> 0" using a by (simp add: n_def)
  have copy: "array_set (mergeBuffers (rightBuffers r) n) L 0 = L"
    by (rule array_set_whole) (simp add: L_def length_mergeBuffers)
  have sb: "stopBuffer mul r =
      Inr \<lparr>chanL = fst (applyFade k n (L, L)), chanR = snd (applyFade k n (L, L)),
           abSampleRate = ctxSampleRate r\<rparr>"
    using a n0 copy by (simp add: stopBuffer_def Let_def n_def [symmetric] L_def [symmetric] k_def)
  show "\<exists>b. stopBuffer mul r = Inr b \<and> snd (stop mul r) = Inr (encodeWAV b) \<and> chanR b = chanL b
           \<and> chanL b =
               fst (applyFade
                     (min (nat (finalLength r) div 2) (nat \<lfloor>mul (ctxSampleRate r) (5 / 1000)\<rfloor>))
                     (nat (finalLength r))
                     (mergeBuffers (leftBuffers r) (nat (finalLength r)),
                      mergeBuffers (leftBuffers r) (nat (finalLength r))))"
    unfolding n_def [symmetric] L_def [symmetric] k_def [symmetric]
    by (simp add: sb stop_def applyFade_same)
qed

text \<open>
  A session that captured no sample has \<open>finalLength = 0\<close>, and so gets the silent
  buffer, unless its target is negative.
\<close>

lemma finalLength_no_sample:
  "recordingLength r = 0 \<Longrightarrow>
     finalLength r = (case targetSampleCount r of None \<Rightarrow> 0 | Some t \<Rightarrow> min 0 t)"
  by (simp add: finalLength_def split: option.splits)

text \<open>
  Claim C7. A recording is started with the duration \<open>- 1\<close> (the loop-length field is
  read with \<open>parseFloat\<close> and passed on as it is) at \<open>48000\<close> samples per second, and
  stopped before a chunk has arrived. No sample was captured, the target is \<open>- 48000\<close>, so
  is \<open>finalLength\<close>, and \<open>stop()\<close> throws a \<open>RangeError\<close> where it should return the
  silent buffer: \<open>_mergeBuffers\<close> allocates \<open>new Float32Array(finalLength)\<close> before the
  test \<open>finalLength === 0\<close> is reached, and that test does not cover a negative length.
  The same session without a target returns the \<open>128\<close>-frame silent buffer.
\<close>

theorem stop_without_samples_throws:
  "recordingLength (session (*) (Some (- 1)) 48000 [Alive]) = 0
   \<and> targetSampleCount (session (*) (Some (- 1)) 48000 [Alive]) = Some (- 48000)
   \<and> finalLength (session (*) (Some (- 1)) 48000 [Alive]) = - 48000
   \<and> snd (stop (*) (session (*) (Some (- 1)) 48000 [Alive])) = Inl RangeError
   \<and> stopFrames (*) (session (*) (Some (- 1)) 48000 [Alive]) = Inl RangeError
   \<and> recordingLength (session (*) None 48000 [Alive]) = 0
   \<and> snd (stop (*) (session (*) None 48000 [Alive])) = Inr (encodeWAV (createBuffer 128 48000))"
  by (simp add: session_def startRecording_def newRecorder_def recorderStart_def onmessage_def
      stop_def stopFrames_def stopBuffer_def finalLength_def js_or_def Let_def)

section \<open>Properties of the sampler voices\<close>

lemma toggle_trigger_starts_loop:
  assumes "playerLoaded v" and "mode v = Toggle" and "\<not> isPlaying v"
  shows "playerState (trigger Running None now v) = Started
       \<and> playerLoopFlag (trigger Running None now v)
       \<and> isPlaying (trigger Running None now v)
       \<and> last (activeSources (trigger Running None now v))
           = \<lparr>srcStart = now + 5 / 100, srcLoop = True, srcStop = None\<rparr>"
  using assms
  by (cases "playerLoopFlag v")
    (simp_all add: trigger_def triggerBody_def play_def playerStart_def setPlayerLoop_def
      safeTime_def Let_def)

lemma gate_trigger_starts:
  "playerLoaded v \<Longrightarrow> mode v = Gate \<Longrightarrow>
     playerState (trigger Running time now v) = Started
     \<and> playerLoaded (trigger Running time now v) \<and> mode (trigger Running time now v) = Gate"
  by (cases "playerLoopFlag v")
    (simp_all add: trigger_def triggerBody_def play_def playerStart_def playerStop_def
      setPlayerLoop_def Let_def)

lemma gate_fold_trigger:
  "playerLoaded v \<Longrightarrow> mode v = Gate \<Longrightarrow>
     playerLoaded (fold (trigger Running None) nows v)
     \<and> mode (fold (trigger Running None) nows v) = Gate
     \<and> (nows \<noteq> [] \<longrightarrow> playerState (fold (trigger Running None) nows v) = Started)"
proof (induction nows arbitrary: v rule: rev_induct)
  case Nil
  then show ?case by simp
next
  case (snoc t ts)
  from snoc.IH [OF snoc.prems]
  have "playerLoaded (fold (trigger Running None) ts v)"
    and "mode (fold (trigger Running None) ts v) = Gate"
    by simp_all
  then show ?case using gate_trigger_starts [of "fold (trigger Running None) ts v" None t] by simp
qed

text \<open>
  With the context running, a Gate voice that has been triggered (once or more) has a
  stop scheduled for every one of its sources after one \<open>release\<close>.
\<close>

lemma gate_release_stops:
  assumes "playerLoaded v" and "mode v = Gate" and "nows \<noteq> []"
  shows "list_all (\<lambda>src. srcStop src = Some (now + 5 / 100))
           (activeSources (release None now (fold (trigger Running None) nows v)))"
proof -
  define w where "w = fold (trigger Running None) nows v"
  have "mode w = Gate" and "playerState w = Started"
    using gate_fold_trigger [OF assms(1,2), of nows] assms(3) by (simp_all add: w_def)
  then show ?thesis
    unfolding w_def [symmetric]
    by (simp add: release_def stopVoice_def playerStop_def stopSources_def safeTime_def
        list_all_iff)
qed

text \<open>
  Claim C4. A Toggle voice with a loaded sample that is triggered twice, with the context
  running: the first trigger starts it; the second calls \<open>stop\<close> and then assigns
  \<open>player.loop = false\<close>, which cancels the stop just scheduled, so the player reports
  stopped while its source plays on, to the end of its buffer. A Gate voice with a loaded sample that is triggered
  while the context is not running and released before the context starts: the release
  finds nothing to stop, and the continuation of the trigger then starts the voice.
\<close>

theorem trigger_then_stop_leaves_voice_sounding:
  "playerLoaded toggleVoice \<and> mode toggleVoice = Toggle \<and> \<not> isPlaying toggleVoice
   \<and> isPlaying (trigger Running None 1 toggleVoice)
   \<and> soundingAt (3 / 2) (trigger Running None 1 toggleVoice)
   \<and> playerState (trigger Running None 2 (trigger Running None 1 toggleVoice)) = Stopped
   \<and> activeSources (trigger Running None 2 (trigger Running None 1 toggleVoice))
       = [\<lparr>srcStart = 21 / 20, srcLoop = False, srcStop = None\<rparr>]
   \<and> soundingAt 3 (trigger Running None 2 (trigger Running None 1 toggleVoice))
   \<and> playerLoaded gateVoice \<and> mode gateVoice = Gate
   \<and> triggerSuspended Suspended gateVoice
   \<and> activeSources
        (triggerResume None (12 / 10)
          (release None (11 / 10) (trigger Suspended None 1 gateVoice)))
       = [\<lparr>srcStart = 5 / 4, srcLoop = False, srcStop = None\<rparr>]
   \<and> soundingAt (13 / 10)
        (triggerResume None (12 / 10)
          (release None (11 / 10) (trigger Suspended None 1 gateVoice)))"
  by (simp add: toggleVoice_def gateVoice_def trigger_def triggerResume_def triggerBody_def
      triggerSuspended_def release_def play_def playerStart_def stopVoice_def playerStop_def
      stopSources_def setPlayerLoop_def loadDone_def setMode_def modeOfString_def newVoice_def
      safeTime_def soundingAt_def sourceSounding_def fadeOut_def Let_def)

section \<open>Properties of the global LFOs\<close>

lemma param_disconnectLFO [simp]:
  "getAudioParamByName (disconnectLFO q t) p = getAudioParamByName t p"
  by (simp add: getAudioParamByName_def disconnectLFO_def split: option.splits)




section \<open>Properties of the shared input streams\<close>

text \<open>
  Claim C6, as stated, fails for a second call that arrives while the first is still
  awaiting \<open>getUserMedia\<close>: the cache is only written after the \<open>await\<close>, so both calls
  miss it, two requests are issued, and the callers get different streams.
\<close>

theorem getSharedInputStream_in_flight_opens_twice:
  "fst (getSharedInputStream_begin (Some ''mic'') emptyCache) = Awaiting ''mic''
   \<and> fst (getSharedInputStream_begin (Some ''mic'')
           (snd (getSharedInputStream_begin (Some ''mic'') emptyCache))) = Awaiting ''mic''
   \<and> opened (snd (getSharedInputStream_begin (Some ''mic'')
           (snd (getSharedInputStream_begin (Some ''mic'') emptyCache))))
       = [Some ''mic'', Some ''mic'']
   \<and> fst (getSharedInputStream_resume ''mic''
           (snd (getSharedInputStream_begin (Some ''mic'')
             (snd (getSharedInputStream_begin (Some ''mic'') emptyCache))))) = 0
   \<and> fst (getSharedInputStream_resume ''mic''
           (snd (getSharedInputStream_resume ''mic''
             (snd (getSharedInputStream_begin (Some ''mic'')
               (snd (getSharedInputStream_begin (Some ''mic'') emptyCache))))))) = 1"
  by (simp add: getSharedInputStream_begin_def getSharedInputStream_resume_def emptyCache_def
      cacheKey_def truthyDevice_def Let_def)

text \<open>
  Claim C6, amended. A second call for the same device id that is made after the first
  has returned gets the same stream, and issues no further request.
\<close>

theorem getSharedInputStream_twice_in_sequence:
  "fst (getSharedInputStream d (snd (getSharedInputStream d c))) = fst (getSharedInputStream d c)
   \<and> opened (snd (getSharedInputStream d (snd (getSharedInputStream d c))))
       = opened (snd (getSharedInputStream d c))
   \<and> length (opened (snd (getSharedInputStream d c))) \<le> length (opened c) + 1"
proof -
  obtain s c1 where first: "getSharedInputStream d c = (s, c1)" by (cases "getSharedInputStream d c")
  have hit: "inputStreams c1 (cacheKey d) = Some s \<and> streamActive c1 s
      \<and> length (opened c1) \<le> length (opened c) + 1"
    using first
    by (auto simp: getSharedInputStream_def getSharedInputStream_begin_def
        getSharedInputStream_resume_def Let_def split: option.splits if_splits)
  then have "getSharedInputStream d c1 = (s, c1)"
    by (simp add: getSharedInputStream_def getSharedInputStream_begin_def Let_def)
  then show ?thesis using first hit by simp
qed

section \<open>Properties of the sampler service\<close>

lemma padsNumbered_nth:
  "padsNumbered s \<Longrightarrow> i < length (voices s) \<Longrightarrow> voiceId (voices s ! i) = Suc i"
proof -
  assume a: "padsNumbered s" and i: "i < length (voices s)"
  have "voiceId (voices s ! i) = map voiceId (voices s) ! i" using i by simp
  also have "\<dots> = [1..<Suc (length (voices s))] ! i" using a by (simp add: padsNumbered_def)
  also have "\<dots> = Suc i" using i by (simp del: upt_Suc)
  finally show ?thesis .
qed

lemma triggerPad_voices:
  assumes "padsNumbered s" and "getVoice s padId = Some voice" and "chokeGroup voice \<noteq> JNull"
  shows "nat (padId - 1) < length (voices s)"
    and "voices (triggerPad ctx padId now s) =
           (map (\<lambda>v. if chokeGroup v = chokeGroup voice \<and> voiceId v \<noteq> voiceId voice
                      then stopVoice None now v else v) (voices s))
             [nat (padId - 1) := trigger ctx None now voice]"
proof -
  have rng: "1 \<le> padId \<and> padId \<le> int (length (voices s))"
    using assms(2) by (simp add: getVoice_def split: if_splits)
  then show idx: "nat (padId - 1) < length (voices s)" by linarith
  have voice: "voice = voices s ! nat (padId - 1)"
    using assms(2) rng by (simp add: getVoice_def)
  show "voices (triggerPad ctx padId now s) =
           (map (\<lambda>v. if chokeGroup v = chokeGroup voice \<and> voiceId v \<noteq> voiceId voice
                      then stopVoice None now v else v) (voices s))
             [nat (padId - 1) := trigger ctx None now voice]"
    using assms(2,3) rng idx
    by (simp add: triggerPad_def onVoice_def silenceChokeGroup_def voice [symmetric])
qed

text \<open>
  What the choke does reach: every other voice of the group whose player is started has
  a stop scheduled at \<open>now\<close> for each of its sources when \<open>triggerPad\<close> returns.
\<close>

lemma triggerPad_stops_started_voices:
  assumes "padsNumbered s" and "getVoice s padId = Some voice" and "chokeGroup voice \<noteq> JNull"
    and "i < length (voices s)" and "int i + 1 \<noteq> padId"
    and "chokeGroup (voices s ! i) = chokeGroup voice" and "playerState (voices s ! i) = Started"
  shows "list_all (\<lambda>src. srcStop src = Some now)
           (activeSources (voices (triggerPad ctx padId now s) ! i))"
proof -
  define k where "k = nat (padId - 1)"
  have k: "k < length (voices s)"
    using triggerPad_voices(1) [OF assms(1-3)] by (simp add: k_def)
  have rng: "1 \<le> padId" using assms(2) by (simp add: getVoice_def split: if_splits)
  have voice: "voice = voices s ! k"
    using assms(2) by (simp add: getVoice_def k_def split: if_splits)
  have vid: "voiceId voice = Suc k" using padsNumbered_nth [OF assms(1) k] voice by simp
  have ik: "i \<noteq> k" using assms(5) rng by (auto simp: k_def)
  have "voices (triggerPad ctx padId now s) ! i = stopVoice None now (voices s ! i)"
    using triggerPad_voices(2) [OF assms(1-3), of ctx now] assms(4,6) ik vid
      padsNumbered_nth [OF assms(1,4)]
    by (simp add: k_def [symmetric])
  then show ?thesis
    using assms(7) by (simp add: stopVoice_def playerStop_def stopSources_def list_all_iff)
qed

text \<open>
  Claim C3. Two pads of one choke group, both with a loaded sample. Triggered one after
  the other while the context is not running, each \<open>triggerPad\<close> stops the other voice
  and returns with its trigger suspended at \<open>await Tone.start()\<close>; when the context
  starts, both continuations start their players, and both voices sound. And with the
  context running: a Toggle voice that was triggered twice still sounds while its player
  reports stopped, so the \<open>stop\<close> of the choke does nothing to it, and it sounds
  together with the voice that is triggered.
\<close>

theorem triggerPad_leaves_two_voices_sounding:
  "chokeGroup (voices chokeIdle ! 0) = JNum 1 \<and> chokeGroup (voices chokeIdle ! 1) = JNum 1
   \<and> soundingAt (103 / 10) (voices
         (resumePad 2 (102 / 10) (resumePad 1 (102 / 10)
           (triggerPad Suspended 2 (101 / 10) (triggerPad Suspended 1 10 chokeIdle)))) ! 0)
   \<and> soundingAt (103 / 10) (voices
         (resumePad 2 (102 / 10) (resumePad 1 (102 / 10)
           (triggerPad Suspended 2 (101 / 10) (triggerPad Suspended 1 10 chokeIdle)))) ! 1)
   \<and> soundingCount (JNum 1) (103 / 10)
         (resumePad 2 (102 / 10) (resumePad 1 (102 / 10)
           (triggerPad Suspended 2 (101 / 10) (triggerPad Suspended 1 10 chokeIdle)))) = 2
   \<and> soundingCount (JNum 1) (31 / 10) (triggerPad Running 1 3 chokeLatched) = 2"
  by code_simp

lemma busOut_load [simp]: "busOut (load url name v) = busOut v"
  by (simp add: load_def Let_def split: option.splits)

lemma playerOut_load [simp]: "playerOut (load url name v) = playerOut v"
  by (simp add: load_def Let_def split: option.splits)

lemma busOut_routeVoice:
  "busOut (routeVoice tracks padId v) =
     {if 17 \<le> padId \<and> padId \<le> 20
      then (case chainInputOf tracks (targetTrack padId) of None \<Rightarrow> SamplerOutput | Some node \<Rightarrow> node)
      else SamplerOutput}"
  by (auto simp: routeVoice_def chainInputOf_def connectVoice_def Let_def split: option.splits)

lemma playerOut_routeVoice:
  "17 \<le> padId \<Longrightarrow> padId \<le> 20 \<Longrightarrow> playerOut (routeVoice tracks padId v) = {}"
  by (simp add: routeVoice_def connectVoice_def Let_def split: option.splits)

lemma targetTrack_pads: "17 \<le> padId \<Longrightarrow> padId \<le> 20 \<Longrightarrow> targetTrack padId = padId - 17"
  by (auto simp: targetTrack_def)

text \<open>
  Where \<open>assignSample\<close> leaves the voice's output bus: at the effect-chain input of
  track \<open>padId - 17\<close> for a pad from 17 to 20 (at the shared sampler output when that
  track is not initialised), and at the shared sampler output for a pad from 1 to 16.
\<close>

lemma assignSample_routing:
  assumes "length (voices s) = 20" and "1 \<le> padId" and "padId \<le> 20"
  shows "\<exists>s'. assignSample tracks padId url name now s = Inr s'
           \<and> busOut (voices s' ! nat (padId - 1)) =
               {if 17 \<le> padId
                then (case chainInputOf tracks (padId - 17) of
                        None \<Rightarrow> SamplerOutput | Some node \<Rightarrow> node)
                else SamplerOutput}"
proof -
  have v: "getVoice s padId = Some (voices s ! nat (padId - 1))"
    using assms by (simp add: getVoice_def)
  have k: "nat (padId - 1) < length (voices s)" using assms by linarith
  define s' where
    "s' = onVoice padId
            (\<lambda>v. load url name (routeVoice tracks padId (setMode (defaultMode padId) now v))) s"
  have res: "assignSample tracks padId url name now s = Inr s'"
    by (simp add: assignSample_def v s'_def)
  have bus: "busOut (voices s' ! nat (padId - 1)) =
      {if 17 \<le> padId
       then (case chainInputOf tracks (padId - 17) of None \<Rightarrow> SamplerOutput | Some node \<Rightarrow> node)
       else SamplerOutput}"
  proof (cases "17 \<le> padId")
    case True
    then show ?thesis
      using assms k targetTrack_pads [OF True assms(3)]
      by (simp add: s'_def onVoice_def busOut_routeVoice)
  next
    case False
    then show ?thesis using assms k by (simp add: s'_def onVoice_def busOut_routeVoice)
  qed
  with res show ?thesis by blast
qed

text \<open>
  For a pad from 17 to 20 the same call disconnects the voice's player from everything,
  the voice's own output bus included, and connects it to nothing: whatever the bus is
  connected to, the player does not feed it.
\<close>

lemma assignSample_disconnects_player:
  assumes "length (voices s) = 20" and "17 \<le> padId" and "padId \<le> 20"
  shows "\<exists>s'. assignSample tracks padId url name now s = Inr s'
           \<and> playerOut (voices s' ! nat (padId - 1)) = {}
           \<and> \<not> voiceFeeds (voices s' ! nat (padId - 1)) node"
proof -
  have v: "getVoice s padId = Some (voices s ! nat (padId - 1))"
    using assms by (simp add: getVoice_def)
  have k: "nat (padId - 1) < length (voices s)" using assms by linarith
  define s' where
    "s' = onVoice padId
            (\<lambda>v. load url name (routeVoice tracks padId (setMode (defaultMode padId) now v))) s"
  have res: "assignSample tracks padId url name now s = Inr s'"
    by (simp add: assignSample_def v s'_def)
  have "playerOut (voices s' ! nat (padId - 1)) = {}"
    using assms k by (simp add: s'_def onVoice_def playerOut_routeVoice)
  with res show ?thesis by (auto simp: voiceFeeds_def)
qed

text \<open>
  Claim C9. A sample is assigned to pad 18 of a new service while tracks 0 and 1 are
  initialised: the voice's output bus is connected to the effect-chain input of track 1
  and not to the shared sampler output, but \<open>voice.player.disconnect()\<close> has cut the
  player from that bus, so the voice's player does not feed the track. Pad 3, for which
  the player is left alone, feeds the shared sampler output.
\<close>

theorem assignSample_pad18_player_cut_off:
  "assignSample twoTracks 18 ''kick.wav'' (Some ''kick'') 0 newSampler
     = Inr (assigned twoTracks 18 newSampler)
   \<and> busOut (voices (assigned twoTracks 18 newSampler) ! 17) = {ChainInput 1}
   \<and> playerOut (voices (assigned twoTracks 18 newSampler) ! 17) = {}
   \<and> \<not> voiceFeeds (voices (assigned twoTracks 18 newSampler) ! 17) (ChainInput 1)
   \<and> voiceFeeds (voices (assigned twoTracks 3 newSampler) ! 2) SamplerOutput"
proof -
  have len: "length (voices newSampler) = 20" by (simp add: newSampler_def)
  from assignSample_routing [OF len, of 18 twoTracks "''kick.wav''" "Some ''kick''" 0]
  obtain s' where s': "assignSample twoTracks 18 ''kick.wav'' (Some ''kick'') 0 newSampler = Inr s'"
    and bus: "busOut (voices s' ! nat (18 - 1)) =
      {case chainInputOf twoTracks (18 - 17) of None \<Rightarrow> SamplerOutput | Some node \<Rightarrow> node}"
    by auto
  from assignSample_disconnects_player [OF len, of 18 twoTracks "''kick.wav''" "Some ''kick''" 0 "ChainInput 1"]
  have cut: "playerOut (voices s' ! nat (18 - 1)) = {}"
    and nofeed: "\<not> voiceFeeds (voices s' ! nat (18 - 1)) (ChainInput 1)"
    using s' by auto
  have a18: "assigned twoTracks 18 newSampler = s'" by (simp add: assigned_def s')
  have c1: "chainInputOf twoTracks 1 = Some (ChainInput 1)"
    by (simp add: chainInputOf_def trackAt_def twoTracks_def)
  have pad3: "voiceFeeds (voices (assigned twoTracks 3 newSampler) ! 2) SamplerOutput"
    by (simp add: assigned_def assignSample_def getVoice_def newSampler_def onVoice_def
        voiceFeeds_def routeVoice_def connectVoice_def setMode_def defaultMode_def
        modeOfString_def stopVoice_def playerStop_def newVoice_def load_def Let_def
        del: upt_Suc)
  show ?thesis
    using s' bus cut nofeed c1 pad3 by (simp add: a18)
qed

section \<open>Properties of the LFO bindings\<close>

lemma disconnectAll_subset: "disconnectAll es g \<subseteq> g"
  by (induction es arbitrary: g) auto

lemma disconnectAll_present:
  "distinct es \<Longrightarrow> set es \<subseteq> g \<Longrightarrow> disconnectAll es g = g - set es"
proof (induction es arbitrary: g)
  case Nil
  then show ?case by simp
next
  case (Cons e es)
  have e: "e \<in> g" and rest: "set es \<subseteq> g - {e}" and d: "distinct es"
    using Cons.prems by auto
  from Cons.IH [OF d rest] have "disconnectAll es (g - {e}) = g - {e} - set es" .
  then show ?case using e by auto
qed

lemma distinct_connEdges: "distinct (connEdges c)"
  by (auto simp: connEdges_def split: option.splits)

lemma nextNode_disconnectLFO [simp]: "nextNode (disconnectLFO p t) = nextNode t"
  by (simp add: disconnectLFO_def split: option.splits)

lemma other_disconnectLFO: "q \<noteq> p \<Longrightarrow> lfoConnections (disconnectLFO p t) q = lfoConnections t q"
  by (simp add: disconnectLFO_def split: option.splits)

lemma unbound_disconnectLFO [simp]: "lfoConnections (disconnectLFO p t) p = None"
  by (simp add: disconnectLFO_def split: option.splits)

lemma wellFormed_disconnectLFO: "wellFormed t \<Longrightarrow> wellFormed (disconnectLFO p t)"
  using disconnectAll_subset by (fastforce simp: wellFormed_def disconnectLFO_def split: option.splits)

lemma disconnectLFO_bound:
  assumes "lfoConnections t p = Some c" and "set (connEdges c) \<subseteq> modGraph t"
  shows "modGraph (disconnectLFO p t) = modGraph t - set (connEdges c)"
  using assms by (simp add: disconnectLFO_def disconnectAll_present distinct_connEdges)

lemma slotParam_disconnectLFO [simp]: "slotParam (disconnectLFO q t) = slotParam t"
  by (simp add: disconnectLFO_def split: option.splits)

lemma slotParam_connectLFO [simp]: "slotParam (connectLFO m q mn mx idx t) = slotParam t"
  by (simp add: connectLFO_def Let_def split: option.splits)

lemma param_connectLFO:
  "getAudioParamByName (connectLFO m q mn mx idx t) p = getAudioParamByName t p"
  by (simp add: getAudioParamByName_def)

lemma lfoReverseState_disconnectLFO [simp]:
  "lfoReverseState (disconnectLFO q t) = lfoReverseState t"
  by (simp add: disconnectLFO_def split: option.splits)

lemma lfoReverseState_connectLFO [simp]:
  "lfoReverseState (connectLFO m q mn mx idx t) = lfoReverseState t"
  by (simp add: connectLFO_def Let_def split: option.splits)

text \<open>
  What a successful \<open>connectLFO\<close> adds: one binding, made of new nodes, from the LFO
  to the parameter.
\<close>

lemma connectLFO_new:
  assumes "getAudioParamByName t p = Some prm" and "getLfo m idx = Some (LfoNode i)"
    and "idx \<noteq> JUndefined"
  shows "\<exists>c. lfoConnections (connectLFO m p mn mx idx t) p = Some c \<and> connSource c = LfoNode i
           \<and> modGraph (connectLFO m p mn mx idx t)
               = modGraph (disconnectLFO p t) \<union> set (connEdges c)
           \<and> nextNode (connectLFO m p mn mx idx t) = nextNode t + 3
           \<and> (\<forall>e \<in> set (connEdges c). \<not> knownEdge (nextNode t) e \<and> knownEdge (nextNode t + 3) e)
           \<and> (\<forall>q. q \<noteq> p \<longrightarrow>
                 lfoConnections (connectLFO m p mn mx idx t) q = lfoConnections t q)
           \<and> connParam c = prm
           \<and> connEdges c =
               (if lfoReverseState t p
                then [(LfoNode i, ScaleNode (nextNode t)),
                      (ScaleNode (nextNode t), MultiplyNode (nextNode t + 1)),
                      (MultiplyNode (nextNode t + 1), AddNode (nextNode t + 2)),
                      (AddNode (nextNode t + 2), ParamNode prm)]
                else [(LfoNode i, ScaleNode (nextNode t)),
                      (ScaleNode (nextNode t), ParamNode prm)])"
  using assms
  by (cases "lfoReverseState t p")
    (simp_all add: connectLFO_def Let_def connEdges_def knownEdge_def other_disconnectLFO)

lemma wellFormed_connectLFO:
  assumes "wellFormed t"
  shows "wellFormed (connectLFO initManager p mn mx idx t)"
proof -
  define idx' where "idx' = (if idx = JUndefined then JNum 1 else idx)"
  have same: "connectLFO initManager p mn mx idx t = connectLFO initManager p mn mx idx' t"
    by (simp add: connectLFO_def idx'_def)
  have idx': "idx' \<noteq> JUndefined" by (simp add: idx'_def)
  obtain i where lf: "getLfo initManager idx' = Some (LfoNode i)"
    by (cases "idx' = JNum 1") (simp_all add: getLfo_def initManager_def)
  have wf0: "wellFormed (disconnectLFO p t)" by (rule wellFormed_disconnectLFO [OF assms])
  show ?thesis
  proof (cases "getAudioParamByName t p")
    case None
    then show ?thesis using wf0 by (simp add: connectLFO_def Let_def)
  next
    case (Some prm)
    from connectLFO_new [OF Some lf idx', of mn mx]
    obtain c where c:
      "modGraph (connectLFO initManager p mn mx idx' t) = modGraph (disconnectLFO p t) \<union> set (connEdges c)"
      "nextNode (connectLFO initManager p mn mx idx' t) = nextNode t + 3"
      "\<forall>e \<in> set (connEdges c). \<not> knownEdge (nextNode t) e \<and> knownEdge (nextNode t + 3) e"
      by blast
    have mono: "knownEdge (nextNode t) e \<Longrightarrow> knownEdge (nextNode t + 3) e" for e
      by (cases e; cases "fst e"; cases "snd e") (auto simp: knownEdge_def)
    show ?thesis
      unfolding same wellFormed_def c(1,2)
      using wf0 c(3) mono by (auto simp: wellFormed_def)
  qed
qed

text \<open>Whatever \<open>connectLFO\<close> does after the teardown, it only adds connections of new nodes.\<close>

lemma connectLFO_graph:
  "modGraph (connectLFO m p mn mx idx t)
     \<subseteq> modGraph (disconnectLFO p t) \<union> {e. \<not> knownEdge (nextNode t) e}"
proof (cases "getAudioParamByName t p")
  case None
  then show ?thesis by (simp add: connectLFO_def Let_def)
next
  case (Some prm)
  show ?thesis
  proof (cases "getLfo m (if idx = JUndefined then JNum 1 else idx)")
    case None
    then show ?thesis using Some by (simp add: connectLFO_def Let_def)
  next
    case lf: (Some l)
    then show ?thesis
      using Some
      by (cases "lfoReverseState (disconnectLFO p t) p")
        (auto simp: connectLFO_def Let_def connEdges_def knownEdge_def)
  qed
qed

text \<open>
  Claim C5. \<open>lfoConnections\<close> is a map, so a parameter name has at most one entry, and
  \<open>connectLFO\<close> removes the entry and its connections before it adds new ones: none of
  the connections of a binding that existed is left after the call, whichever index is
  given. With both LFOs created (\<open>initManager\<close>) and a parameter that resolves: after
  binding it to LFO 1 and then to LFO 2, the parameter's entry is the binding to LFO 2,
  none of the connections of the binding to LFO 1 is left in the graph, the graph is the
  one without any binding of the parameter plus the connections of the binding to LFO 2,
  and the entries of the other parameters are as before. The connections are these: the
  first binding is the chain from LFO 1 through a new scale node (and, reversed, a new
  negate and a new add node) to the parameter, and it is in the graph after the first
  call; the second binding is such a chain from LFO 2 through other new nodes to the same
  parameter, and it is in the graph after the second call, when LFO 1 is no longer
  connected to its scale node; and the connections into the parameter are then those
  that do not belong to a binding of this name and the last one of the chain from LFO 2.
\<close>

theorem connectLFO_rebinds:
  assumes "wellFormed t" and "getAudioParamByName t p = Some prm"
  shows "(\<forall>c0 m idx mn mx.
            lfoConnections t p = Some c0 \<and> set (connEdges c0) \<subseteq> modGraph t \<longrightarrow>
              set (connEdges c0) \<inter> modGraph (connectLFO m p mn mx idx t) = {})
       \<and> (\<exists>c1 c2.
           lfoConnections (connectLFO initManager p a b (JNum 1) t) p = Some c1
           \<and> connSource c1 = LfoNode 1
           \<and> set (connEdges c1) \<subseteq> modGraph (connectLFO initManager p a b (JNum 1) t)
           \<and> lfoConnections
                 (connectLFO initManager p c d (JNum 2) (connectLFO initManager p a b (JNum 1) t)) p
               = Some c2
           \<and> connSource c2 = LfoNode 2
           \<and> set (connEdges c1)
                 \<inter> modGraph (connectLFO initManager p c d (JNum 2)
                              (connectLFO initManager p a b (JNum 1) t)) = {}
           \<and> modGraph (connectLFO initManager p c d (JNum 2) (connectLFO initManager p a b (JNum 1) t))
               = modGraph (disconnectLFO p t) \<union> set (connEdges c2)
           \<and> (\<forall>q. q \<noteq> p \<longrightarrow>
                 lfoConnections
                   (connectLFO initManager p c d (JNum 2) (connectLFO initManager p a b (JNum 1) t)) q
                 = lfoConnections t q)
           \<and> connParam c1 = prm \<and> connParam c2 = prm
           \<and> connEdges c1 =
               (if lfoReverseState t p
                then [(LfoNode 1, ScaleNode (nextNode t)),
                      (ScaleNode (nextNode t), MultiplyNode (nextNode t + 1)),
                      (MultiplyNode (nextNode t + 1), AddNode (nextNode t + 2)),
                      (AddNode (nextNode t + 2), ParamNode prm)]
                else [(LfoNode 1, ScaleNode (nextNode t)),
                      (ScaleNode (nextNode t), ParamNode prm)])
           \<and> connEdges c2 =
               (if lfoReverseState t p
                then [(LfoNode 2, ScaleNode (nextNode t + 3)),
                      (ScaleNode (nextNode t + 3), MultiplyNode (nextNode t + 4)),
                      (MultiplyNode (nextNode t + 4), AddNode (nextNode t + 5)),
                      (AddNode (nextNode t + 5), ParamNode prm)]
                else [(LfoNode 2, ScaleNode (nextNode t + 3)),
                      (ScaleNode (nextNode t + 3), ParamNode prm)])
           \<and> set (connEdges c2)
                 \<subseteq> modGraph (connectLFO initManager p c d (JNum 2)
                              (connectLFO initManager p a b (JNum 1) t))
           \<and> (LfoNode 1, ScaleNode (nextNode t))
                 \<in> modGraph (connectLFO initManager p a b (JNum 1) t)
           \<and> (LfoNode 1, ScaleNode (nextNode t))
                 \<notin> modGraph (connectLFO initManager p c d (JNum 2)
                              (connectLFO initManager p a b (JNum 1) t))
           \<and> (LfoNode 2, ScaleNode (nextNode t + 3))
                 \<in> modGraph (connectLFO initManager p c d (JNum 2)
                              (connectLFO initManager p a b (JNum 1) t))
           \<and> {e \<in> modGraph (connectLFO initManager p c d (JNum 2)
                                (connectLFO initManager p a b (JNum 1) t)).
                  snd e = ParamNode prm}
               = {e \<in> modGraph (disconnectLFO p t). snd e = ParamNode prm}
                 \<union> {(if lfoReverseState t p then AddNode (nextNode t + 5)
                      else ScaleNode (nextNode t + 3), ParamNode prm)})"
proof -
  have teardown: "set (connEdges c0) \<inter> modGraph (connectLFO m p mn mx idx t) = {}"
    if "lfoConnections t p = Some c0 \<and> set (connEdges c0) \<subseteq> modGraph t"
    for c0 m idx mn mx
  proof -
    have known: "\<forall>e \<in> set (connEdges c0). knownEdge (nextNode t) e"
      using that assms(1) by (auto simp: wellFormed_def)
    have removed: "modGraph (disconnectLFO p t) = modGraph t - set (connEdges c0)"
      using that by (intro disconnectLFO_bound) simp_all
    show ?thesis
      using connectLFO_graph [of m p mn mx idx t] known removed by auto
  qed
  define t0 where "t0 = disconnectLFO p t"
  define t1 where "t1 = connectLFO initManager p a b (JNum 1) t"
  define t2 where "t2 = connectLFO initManager p c d (JNum 2) t1"
  define k where "k = nextNode t"
  define rv where "rv = lfoReverseState t p"
  define e1 where "e1 =
    (if rv then [(LfoNode 1, ScaleNode k), (ScaleNode k, MultiplyNode (k + 1)),
                 (MultiplyNode (k + 1), AddNode (k + 2)), (AddNode (k + 2), ParamNode prm)]
     else [(LfoNode 1, ScaleNode k), (ScaleNode k, ParamNode prm)])"
  define e2 where "e2 =
    (if rv then [(LfoNode 2, ScaleNode (k + 3)), (ScaleNode (k + 3), MultiplyNode (k + 4)),
                 (MultiplyNode (k + 4), AddNode (k + 5)), (AddNode (k + 5), ParamNode prm)]
     else [(LfoNode 2, ScaleNode (k + 3)), (ScaleNode (k + 3), ParamNode prm)])"
  have l1: "getLfo initManager (JNum 1) = Some (LfoNode 1)"
    and l2: "getLfo initManager (JNum 2) = Some (LfoNode 2)"
    by (simp_all add: getLfo_def initManager_def)
  from connectLFO_new [OF assms(2) l1, of a b]
  obtain c1 where c1: "lfoConnections t1 p = Some c1" "connSource c1 = LfoNode 1"
    "modGraph t1 = modGraph t0 \<union> set (connEdges c1)"
    "nextNode t1 = nextNode t + 3"
    "\<forall>e \<in> set (connEdges c1). \<not> knownEdge (nextNode t) e \<and> knownEdge (nextNode t + 3) e"
    "\<forall>q. q \<noteq> p \<longrightarrow> lfoConnections t1 q = lfoConnections t q"
    "connParam c1 = prm" "connEdges c1 = e1"
    unfolding t1_def t0_def e1_def k_def rv_def by auto
  have wf0: "wellFormed t0" unfolding t0_def by (rule wellFormed_disconnectLFO [OF assms(1)])
  have fresh1: "set (connEdges c1) \<inter> modGraph t0 = {}"
    using wf0 c1(5) by (auto simp: wellFormed_def t0_def)
  have prm1: "getAudioParamByName t1 p = Some prm"
    using assms(2) by (simp add: t1_def param_connectLFO)
  have sub1: "set (connEdges c1) \<subseteq> modGraph t1" using c1(3) by simp
  have restored: "modGraph (disconnectLFO p t1) = modGraph t0"
    using disconnectLFO_bound [OF c1(1) sub1] c1(3) fresh1 by auto
  have rv1: "lfoReverseState t1 p = rv" by (simp add: t1_def rv_def)
  have k1: "nextNode t1 = k + 3" using c1(4) by (simp add: k_def)
  from connectLFO_new [OF prm1 l2, of c d]
  obtain c2 where c2: "lfoConnections t2 p = Some c2" "connSource c2 = LfoNode 2"
    "modGraph t2 = modGraph (disconnectLFO p t1) \<union> set (connEdges c2)"
    "\<forall>e \<in> set (connEdges c2). \<not> knownEdge (nextNode t1) e \<and> knownEdge (nextNode t1 + 3) e"
    "\<forall>q. q \<noteq> p \<longrightarrow> lfoConnections t2 q = lfoConnections t1 q"
    "connParam c2 = prm" "connEdges c2 = e2"
    unfolding t2_def rv1 k1 e2_def by (auto simp: add.assoc)
  have fresh2: "set (connEdges c1) \<inter> set (connEdges c2) = {}"
    using c1(5) c2(4) c1(4) by auto
  have gone: "set (connEdges c1) \<inter> modGraph t2 = {}"
    using fresh1 fresh2 c2(3) restored by auto
  have graph2: "modGraph t2 = modGraph t0 \<union> set (connEdges c2)" using c2(3) restored by simp
  have others: "\<forall>q. q \<noteq> p \<longrightarrow> lfoConnections t2 q = lfoConnections t q"
    using c1(6) c2(5) by simp
  have sub2: "set (connEdges c2) \<subseteq> modGraph t2" using graph2 by simp
  have first1: "(LfoNode 1, ScaleNode k) \<in> set (connEdges c1)"
    by (simp add: c1(8) e1_def)
  have in1: "(LfoNode 1, ScaleNode k) \<in> modGraph t1" using first1 sub1 by blast
  have out1: "(LfoNode 1, ScaleNode k) \<notin> modGraph t2" using first1 gone by blast
  have in2: "(LfoNode 2, ScaleNode (k + 3)) \<in> modGraph t2"
    using sub2 by (simp add: c2(7) e2_def split: if_splits)
  have into: "{e \<in> modGraph t2. snd e = ParamNode prm}
      = {e \<in> modGraph t0. snd e = ParamNode prm}
        \<union> {(if rv then AddNode (k + 5) else ScaleNode (k + 3), ParamNode prm)}"
    unfolding graph2 c2(7) e2_def by auto
  have body: "lfoConnections t1 p = Some c1 \<and> connSource c1 = LfoNode 1
      \<and> set (connEdges c1) \<subseteq> modGraph t1
      \<and> lfoConnections t2 p = Some c2 \<and> connSource c2 = LfoNode 2
      \<and> set (connEdges c1) \<inter> modGraph t2 = {}
      \<and> modGraph t2 = modGraph t0 \<union> set (connEdges c2)
      \<and> (\<forall>q. q \<noteq> p \<longrightarrow> lfoConnections t2 q = lfoConnections t q)
      \<and> connParam c1 = prm \<and> connParam c2 = prm
      \<and> connEdges c1 = e1 \<and> connEdges c2 = e2
      \<and> set (connEdges c2) \<subseteq> modGraph t2
      \<and> (LfoNode 1, ScaleNode k) \<in> modGraph t1
      \<and> (LfoNode 1, ScaleNode k) \<notin> modGraph t2
      \<and> (LfoNode 2, ScaleNode (k + 3)) \<in> modGraph t2
      \<and> {e \<in> modGraph t2. snd e = ParamNode prm}
          = {e \<in> modGraph t0. snd e = ParamNode prm}
            \<union> {(if rv then AddNode (k + 5) else ScaleNode (k + 3), ParamNode prm)}"
    by (intro conjI)
      (fact c1(1) c1(2) sub1 c2(1) c2(2) gone graph2 others c1(7) c2(6) c1(8) c2(7) sub2
         in1 out1 in2 into)+
  have ex: "\<exists>c1 c2. lfoConnections t1 p = Some c1 \<and> connSource c1 = LfoNode 1
      \<and> set (connEdges c1) \<subseteq> modGraph t1
      \<and> lfoConnections t2 p = Some c2 \<and> connSource c2 = LfoNode 2
      \<and> set (connEdges c1) \<inter> modGraph t2 = {}
      \<and> modGraph t2 = modGraph t0 \<union> set (connEdges c2)
      \<and> (\<forall>q. q \<noteq> p \<longrightarrow> lfoConnections t2 q = lfoConnections t q)
      \<and> connParam c1 = prm \<and> connParam c2 = prm
      \<and> connEdges c1 = e1 \<and> connEdges c2 = e2
      \<and> set (connEdges c2) \<subseteq> modGraph t2
      \<and> (LfoNode 1, ScaleNode k) \<in> modGraph t1
      \<and> (LfoNode 1, ScaleNode k) \<notin> modGraph t2
      \<and> (LfoNode 2, ScaleNode (k + 3)) \<in> modGraph t2
      \<and> {e \<in> modGraph t2. snd e = ParamNode prm}
          = {e \<in> modGraph t0. snd e = ParamNode prm}
            \<union> {(if rv then AddNode (k + 5) else ScaleNode (k + 3), ParamNode prm)}"
    by (rule exI [of _ c1], rule exI [of _ c2]) (rule body)
  have td: "\<forall>c0 m idx mn mx.
      lfoConnections t p = Some c0 \<and> set (connEdges c0) \<subseteq> modGraph t \<longrightarrow>
        set (connEdges c0) \<inter> modGraph (connectLFO m p mn mx idx t) = {}"
    using teardown by blast
  show ?thesis
    using td ex unfolding t0_def t1_def t2_def e1_def e2_def k_def rv_def
    by (rule conjI)
qed

theorem connectLFO_rebinds_witness:
  "wellFormed (newTrackLfo Map.empty)
   \<and> getAudioParamByName (newTrackLfo Map.empty) ''volume'' = Some Volume
   \<and> (\<exists>c2. lfoConnections
          (connectLFO initManager ''volume'' 0 1 (JNum 2)
            (connectLFO initManager ''volume'' (- 10) 0 (JNum 1) (newTrackLfo Map.empty))) ''volume''
        = Some c2
      \<and> connSource c2 = LfoNode 2 \<and> connParam c2 = Volume
      \<and> connEdges c2 = [(LfoNode 2, ScaleNode 3), (ScaleNode 3, ParamNode Volume)])
   \<and> (LfoNode 1, ScaleNode 0)
        \<in> modGraph (connectLFO initManager ''volume'' (- 10) 0 (JNum 1) (newTrackLfo Map.empty))
   \<and> modGraph
        (connectLFO initManager ''volume'' 0 1 (JNum 2)
          (connectLFO initManager ''volume'' (- 10) 0 (JNum 1) (newTrackLfo Map.empty)))
       = {(LfoNode 2, ScaleNode 3), (ScaleNode 3, ParamNode Volume)}"
proof -
  have wf: "wellFormed (newTrackLfo Map.empty)" by (simp add: wellFormed_def newTrackLfo_def)
  have prm: "getAudioParamByName (newTrackLfo Map.empty) ''volume'' = Some Volume"
    by (simp add: getAudioParamByName_def)
  have g0: "modGraph (disconnectLFO ''volume'' (newTrackLfo Map.empty)) = {}"
    by (simp add: disconnectLFO_def newTrackLfo_def)
  have rv: "\<not> lfoReverseState (newTrackLfo Map.empty) ''volume''"
    and k: "nextNode (newTrackLfo Map.empty) = 0"
    by (simp_all add: newTrackLfo_def)
  from connectLFO_rebinds [OF wf prm, of "- 10" 0 0 1]
  obtain c1 c2 where
    e: "lfoConnections
          (connectLFO initManager ''volume'' 0 1 (JNum 2)
            (connectLFO initManager ''volume'' (- 10) 0 (JNum 1) (newTrackLfo Map.empty))) ''volume''
        = Some c2"
    and src: "connSource c2 = LfoNode 2" and par: "connParam c2 = Volume"
    and edges: "connEdges c2 = [(LfoNode 2, ScaleNode 3), (ScaleNode 3, ParamNode Volume)]"
    and first: "(LfoNode 1, ScaleNode 0)
        \<in> modGraph (connectLFO initManager ''volume'' (- 10) 0 (JNum 1) (newTrackLfo Map.empty))"
    and graph: "modGraph
        (connectLFO initManager ''volume'' 0 1 (JNum 2)
          (connectLFO initManager ''volume'' (- 10) 0 (JNum 1) (newTrackLfo Map.empty)))
       = {} \<union> set (connEdges c2)"
    unfolding g0 k by (elim conjE exE) (simp add: rv)
  have g: "modGraph
        (connectLFO initManager ''volume'' 0 1 (JNum 2)
          (connectLFO initManager ''volume'' (- 10) 0 (JNum 1) (newTrackLfo Map.empty)))
       = {(LfoNode 2, ScaleNode 3), (ScaleNode 3, ParamNode Volume)}"
    unfolding graph edges by simp
  have "\<exists>c2. lfoConnections
          (connectLFO initManager ''volume'' 0 1 (JNum 2)
            (connectLFO initManager ''volume'' (- 10) 0 (JNum 1) (newTrackLfo Map.empty))) ''volume''
        = Some c2
      \<and> connSource c2 = LfoNode 2 \<and> connParam c2 = Volume
      \<and> connEdges c2 = [(LfoNode 2, ScaleNode 3), (ScaleNode 3, ParamNode Volume)]"
    using e src par edges by (intro exI [of _ c2] conjI)
  then show ?thesis
    using wf prm first g by (intro conjI)
qed

section \<open>Properties of the cast audio frames\<close>

lemma toInt32_small: "- 8388608 \<le> n \<Longrightarrow> n < 8388608 \<Longrightarrow> toInt32 n = n"
  unfolding toInt32_def by (rule signed_take_bit_int_eq_self) simp_all

lemma uint_low_byte: "uint (word_of_int (k AND 255) :: 8 word) = k mod 256"
proof -
  have "k AND 255 = take_bit 8 k" by (simp add: take_bit_eq_mask mask_eq_exp_minus_1)
  then show ?thesis by (simp add: uint_word_of_int_eq take_bit_eq_mod)
qed

lemma three_bytes_mod:
  "n mod 256 + 256 * (n div 256 mod 256) + 65536 * (n div 65536 mod 256) = n mod 16777216"
  for n :: int
proof -
  have a: "n mod 16777216 = 256 * (n div 256 mod 65536) + n mod 256"
    using zmod_zmult2_eq [of 65536 n 256] by simp
  have c: "n div 256 div 256 = n div 65536"
    using zdiv_zmult2_eq [of 256 n 256] by simp
  have b: "n div 256 mod 65536 = 256 * (n div 65536 mod 256) + n div 256 mod 256"
    using zmod_zmult2_eq [of 256 "n div 256" 256] unfolding c by simp
  have lin: "z + 256 * y + 65536 * x = 256 * (256 * x + y) + z" for x y z :: int
    by simp
  show ?thesis unfolding a b by (rule lin)
qed

text \<open>The three bytes hold every integer of the signed 24-bit range exactly.\<close>

lemma decode24_pcm24Bytes:
  assumes "- 8388608 \<le> n" and "n < 8388608"
  shows "decode24 (pcm24Bytes n) = n"
proof -
  have d8: "drop_bit 8 n = n div 256" and d16: "drop_bit 16 n = n div 65536"
    by (simp_all add: drop_bit_eq_div)
  have bytes: "pcm24Bytes n =
      [word_of_int (n AND 255), word_of_int (n div 256 AND 255), word_of_int (n div 65536 AND 255)]"
    by (simp only: pcm24Bytes_def toInt32_small [OF assms] d8 d16)
  have u: "decode24 (pcm24Bytes n) =
      (if n mod 16777216 \<ge> 8388608 then n mod 16777216 - 16777216 else n mod 16777216)"
    unfolding bytes decode24_def
    by (simp only: list.case uint_low_byte three_bytes_mod Let_def)
  show ?thesis
  proof (cases "0 \<le> n")
    case True
    then have "n mod 16777216 = n" using assms by simp
    then show ?thesis using assms unfolding u by simp
  next
    case False
    have "n mod 16777216 = (n + 16777216) mod 16777216" by simp
    also have "\<dots> = n + 16777216" using assms False by (intro mod_pos_pos_trivial) simp_all
    finally have "n mod 16777216 = n + 16777216" .
    then show ?thesis using assms unfolding u by simp
  qed
qed

lemma attenuate_range: "- 1 \<le> attenuate x \<and> attenuate x \<le> 1"
  by (simp add: attenuate_def Let_def)

lemma quantize24_range: "- 8388607 \<le> quantize24 x \<and> quantize24 x \<le> 8388607"
proof -
  have "- 8388607 \<le> attenuate x * 8388607" and "attenuate x * 8388607 \<le> 8388607"
    using attenuate_range [of x] by simp_all
  then show ?thesis unfolding quantize24_def by (simp add: le_floor_iff floor_le_iff)
qed

lemma quantize24_error:
  "0 \<le> attenuate x - real_of_int (quantize24 x) / 8388607
   \<and> attenuate x - real_of_int (quantize24 x) / 8388607 < 1 / 8388607"
proof -
  have "real_of_int (quantize24 x) \<le> attenuate x * 8388607"
    and "attenuate x * 8388607 < real_of_int (quantize24 x) + 1"
    unfolding quantize24_def by linarith+
  then show ?thesis by (simp add: field_simps)
qed

lemma decode24_quantize24: "decode24 (pcm24Bytes (quantize24 x)) = quantize24 x"
  using quantize24_range [of x] by (intro decode24_pcm24Bytes) simp_all

lemma length_pcm24Bytes [simp]: "length (pcm24Bytes n) = 3"
  by (simp add: pcm24Bytes_def)

text \<open>
  Claim C8, as stated, fails: the encoder scales every sample by \<open>0.95\<close> before it
  quantises, so the full-scale sample \<open>1\<close> is written as \<open>7969176\<close> and decodes to
  about \<open>0.95\<close>, and the samples \<open>2\<close> and \<open>1.5\<close> are both clamped and written as the
  same bytes, which no decoder can tell apart.
\<close>

theorem pcm24_roundtrip_is_attenuated:
  "decode24 (take 3 (encodeFrame 1 1)) = 7969176
   \<and> decodeSample (take 3 (encodeFrame 1 1)) = 7969176 / 8388607
   \<and> \<not> \<bar>decodeSample (take 3 (encodeFrame 1 1)) - 1\<bar> < 1 / 2 ^ 23
   \<and> encodeFrame 2 2 = encodeFrame (3 / 2) (3 / 2)"
  by (simp add: decodeSample_def decode24_def encodeFrame_def pcm24Bytes_def quantize24_def
      attenuate_def toInt32_def Let_def)

text \<open>
  Claim C8, amended. Decoding a frame recovers exactly the two integers the encoder
  wrote, \<open>floor (8388607 * c)\<close> for \<open>c\<close> the sample scaled by \<open>0.95\<close> and clamped to
  \<open>[-1, 1]\<close>; divided by \<open>8388607\<close> they approximate \<open>c\<close> from below with an error
  under \<open>1 / 8388607\<close>.
\<close>

theorem pcm24_roundtrip_of_attenuated:
  "decode24 (take 3 (encodeFrame l r)) = quantize24 l
   \<and> decode24 (drop 3 (encodeFrame l r)) = quantize24 r
   \<and> attenuate l = max (- 1) (min 1 (l * (95 / 100)))
   \<and> 0 \<le> attenuate l - decodeSample (take 3 (encodeFrame l r))
   \<and> attenuate l - decodeSample (take 3 (encodeFrame l r)) < 1 / 8388607
   \<and> 0 \<le> attenuate r - decodeSample (drop 3 (encodeFrame l r))
   \<and> attenuate r - decodeSample (drop 3 (encodeFrame l r)) < 1 / 8388607"
proof -
  have tl: "take 3 (encodeFrame l r) = pcm24Bytes (quantize24 l)"
    and dr: "drop 3 (encodeFrame l r) = pcm24Bytes (quantize24 r)"
    by (simp_all add: encodeFrame_def)
  have att: "attenuate l = max (- 1) (min 1 (l * (95 / 100)))"
    by (simp add: attenuate_def Let_def max_def min_def)
  show ?thesis
    using quantize24_error [of l] quantize24_error [of r] att
    by (simp add: tl dr decodeSample_def decode24_quantize24)
qed

end
